theory Spec2Isabelle
  imports Complex_Main
begin

section \<open>Numbers of the calculation engine\<close>

text \<open>
  The engine of \<^verbatim>\<open>src/App.vue\<close> computes with JavaScript numbers. They are modelled
  as real numbers together with the value \<open>NaN\<close>: arithmetic is exact (no binary rounding,
  no overflow), and \<open>NaN\<close> is absorbing as in JavaScript. The inputs of the engine
  (capital, amounts, rates, years) are finite; a variable that the source computes only
  by adding and multiplying inputs is a real, a variable that can receive the result of
  \<^verbatim>\<open>Math.pow\<close> is a \<open>jsnum\<close>. The model has no infinities: the engine divides only by
  non-zero constants, by positive powers and by values it has tested to be positive.

  What depends on the binary rounding of JavaScript is stated over a second embedding of
  the same code, given after this one, in which the arithmetic is a parameter; the exact
  numbers are one instance of it, numbers rounded to 53 bits are another.
\<close>

datatype jsnum = Num real | NaN

fun jadd :: "jsnum \<Rightarrow> jsnum \<Rightarrow> jsnum" where
  "jadd (Num a) (Num b) = Num (a + b)"
| "jadd _ _ = NaN"

fun jsub :: "jsnum \<Rightarrow> jsnum \<Rightarrow> jsnum" where
  "jsub (Num a) (Num b) = Num (a - b)"
| "jsub _ _ = NaN"

fun jmul :: "jsnum \<Rightarrow> jsnum \<Rightarrow> jsnum" where
  "jmul (Num a) (Num b) = Num (a * b)"
| "jmul _ _ = NaN"

text \<open>Division; a zero divisor (an infinity or \<open>NaN\<close> in JavaScript) does not occur in the engine.\<close>

fun jdiv :: "jsnum \<Rightarrow> jsnum \<Rightarrow> jsnum" where
  "jdiv (Num a) (Num b) = (if b = 0 then NaN else Num (a / b))"
| "jdiv _ _ = NaN"

text \<open>\<^verbatim>\<open>a > b\<close>: false as soon as one side is \<open>NaN\<close>.\<close>

fun jgt :: "jsnum \<Rightarrow> jsnum \<Rightarrow> bool" where
  "jgt (Num a) (Num b) = (a > b)"
| "jgt _ _ = False"

text \<open>\<^verbatim>\<open>Math.round\<close>: the nearest integer, a tie going up.\<close>

fun Math_round :: "jsnum \<Rightarrow> jsnum" where
  "Math_round (Num x) = Num (of_int \<lfloor>x + 1 / 2\<rfloor>)"
| "Math_round NaN = NaN"

fun Math_max :: "jsnum \<Rightarrow> jsnum \<Rightarrow> jsnum" where
  "Math_max (Num a) (Num b) = Num (max a b)"
| "Math_max _ _ = NaN"

text \<open>
  \<^verbatim>\<open>Math.pow(base, y)\<close> for a finite exponent \<open>y\<close>: 1 for exponent 0 whatever the base,
  \<open>NaN\<close> for a negative base with an exponent that is not an integer. (For base 0 and a
  negative exponent JavaScript gives an infinity; the engine never asks for it.)
\<close>

definition Math_pow :: "jsnum \<Rightarrow> real \<Rightarrow> jsnum" where
  "Math_pow base y =
     (if y = 0 then Num 1
      else case base of
        NaN \<Rightarrow> NaN
      | Num x \<Rightarrow>
          if x > 0 then Num (x powr y)
          else if x = 0 then (if y > 0 then Num 0 else NaN)
          else if of_int \<lfloor>y\<rfloor> = y
            then Num ((if even \<lfloor>y\<rfloor> then 1 else - 1) * (\<bar>x\<bar> powr y))
          else NaN)"

subsection \<open>Decimal rendering: \<^verbatim>\<open>toFixed\<close>\<close>

definition digit_char :: "nat \<Rightarrow> char" where
  "digit_char n = ''0123456789'' ! (n mod 10)"

function string_of_nat :: "nat \<Rightarrow> string" where
  "string_of_nat n =
     (if n < 10 then [digit_char n] else string_of_nat (n div 10) @ [digit_char (n mod 10)])"
  by pat_completeness auto
termination
  by (relation "measure (\<lambda>n. n)") auto

declare string_of_nat.simps [simp del]

text \<open>
  \<^verbatim>\<open>x.toFixed(f)\<close> for \<open>\<bar>x\<bar> < 10\<^sup>2\<^sup>1\<close>: the integer \<open>n\<close> nearest to \<open>\<bar>x\<bar> \<sqdot> 10\<^sup>f\<close> (the larger
  one at a tie), its digits padded with zeros to at least \<open>f + 1\<close> places, a point before
  the last \<open>f\<close> digits, and a minus sign when \<open>x < 0\<close>.
\<close>

definition toFixed :: "nat \<Rightarrow> jsnum \<Rightarrow> string" where
  "toFixed f x =
     (case x of
        NaN \<Rightarrow> ''NaN''
      | Num r \<Rightarrow>
          let n = nat \<lfloor>\<bar>r\<bar> * 10 ^ f + 1 / 2\<rfloor>;
              m = string_of_nat n;
              m = replicate (Suc f - length m) (CHR ''0'') @ m;
              k = length m;
              m = (if f = 0 then m else take (k - f) m @ ''.'' @ drop (k - f) m)
          in if r < 0 then ''-'' @ m else m)"

section \<open>State of the application\<close>

record YieldPhase =
  p_id :: int
  p_startYear :: int
  p_endYear :: int
  p_rate :: real
  p_customDuration :: bool

record Transaction =
  t_id :: int
  t_name :: string
  t_amount :: real
  t_type :: string
  t_startYear :: int
  t_endYear :: int
  t_customDuration :: bool

text \<open>The reactive references \<^verbatim>\<open>initialCapital\<close>, \<^verbatim>\<open>durationYears\<close>, \<^verbatim>\<open>reinvestGains\<close>,
  \<^verbatim>\<open>yieldPhases\<close> and \<^verbatim>\<open>transactions\<close> that every computed property reads.\<close>

record state =
  initialCapital :: real
  durationYears :: int
  reinvestGains :: bool
  yieldPhases :: "YieldPhase list"
  transactions :: "Transaction list"

record YearResult =
  r_year :: int
  r_balance :: jsnum
  r_rate :: real
  r_deposits :: real
  r_returns :: jsnum

text \<open>The variables of the loops of \<^verbatim>\<open>calculateData\<close>.\<close>

record vars =
  currentBalance :: jsnum
  totalGains :: jsnum
  yearDeposits :: real
  yearReturns :: jsnum

section \<open>\<^verbatim>\<open>calculateData\<close>\<close>

definition effectiveEnd :: "state \<Rightarrow> Transaction \<Rightarrow> int" where
  "effectiveEnd st t =
     (if \<not> t_customDuration t \<and> t_type t = ''monthly'' then durationYears st else t_endYear t)"

definition isActive :: "state \<Rightarrow> int \<Rightarrow> Transaction \<Rightarrow> bool" where
  "isActive st year t =
     (year \<ge> t_startYear t
      \<and> year \<le> (if t_type t = ''monthly'' then effectiveEnd st t else t_startYear t))"

text \<open>The body of \<^verbatim>\<open>transactions.value.forEach\<close>.\<close>

definition apply_transaction :: "state \<Rightarrow> int \<Rightarrow> int \<Rightarrow> Transaction \<Rightarrow> vars \<Rightarrow> vars" where
  "apply_transaction st year month t v =
     (if isActive st year t then
        (if t_type t = ''monthly'' then
           v\<lparr>currentBalance := jadd (currentBalance v) (Num (t_amount t)),
             yearDeposits := yearDeposits v + t_amount t\<rparr>
         else if t_type t = ''once'' \<and> month = 1 then
           v\<lparr>currentBalance := jadd (currentBalance v) (Num (t_amount t)),
             yearDeposits := yearDeposits v + t_amount t\<rparr>
         else v)
      else v)"

text \<open>The body of the loop over the months.\<close>

definition month_body :: "state \<Rightarrow> int \<Rightarrow> jsnum \<Rightarrow> int \<Rightarrow> vars \<Rightarrow> vars" where
  "month_body st year monthlyRate month v =
     (let v = fold (apply_transaction st year month) (transactions st) v;
          monthlyGain = jmul (currentBalance v) monthlyRate;
          v = v\<lparr>yearReturns := jadd (yearReturns v) monthlyGain\<rparr>;
          v = (if reinvestGains st
               then v\<lparr>currentBalance := jadd (currentBalance v) monthlyGain\<rparr> else v)
      in v\<lparr>totalGains := jadd (totalGains v) monthlyGain\<rparr>)"

text \<open>The rate of the last matching phase, 0 for the stand-in \<^verbatim>\<open>{ rate: 0 }\<close>.\<close>

definition phase_rate :: "state \<Rightarrow> int \<Rightarrow> real" where
  "phase_rate st year =
     (let matchingPhases =
            filter (\<lambda>p. year \<ge> p_startYear p \<and> year \<le> p_endYear p) (yieldPhases st)
      in if length matchingPhases > 0 then p_rate (last matchingPhases) else 0)"

definition monthlyRate :: "state \<Rightarrow> int \<Rightarrow> jsnum" where
  "monthlyRate st year =
     (let annualRate = phase_rate st year / 100
      in jsub (Math_pow (Num (1 + annualRate)) (1 / 12)) (Num 1))"

text \<open>One year: the two accumulators of the year start at 0, then twelve months.\<close>

definition run_year :: "state \<Rightarrow> int \<Rightarrow> vars \<Rightarrow> vars" where
  "run_year st year v =
     fold (month_body st year (monthlyRate st year)) [1..12]
       (v\<lparr>yearDeposits := 0, yearReturns := Num 0\<rparr>)"

text \<open>The object pushed to \<^verbatim>\<open>results\<close> at the end of a year.\<close>

definition year_result :: "state \<Rightarrow> int \<Rightarrow> vars \<Rightarrow> YearResult" where
  "year_result st year v =
     \<lparr>r_year = year,
      r_balance = Math_round (if reinvestGains st then currentBalance v
                              else jadd (currentBalance v) (totalGains v)),
      r_rate = phase_rate st year,
      r_deposits = of_int \<lfloor>yearDeposits v + 1 / 2\<rfloor>,
      r_returns = Math_round (yearReturns v)\<rparr>"

definition year_body :: "state \<Rightarrow> int \<Rightarrow> vars \<times> YearResult list \<Rightarrow> vars \<times> YearResult list" where
  "year_body st year s =
     (let v = run_year st year (fst s) in (v, snd s @ [year_result st year v]))"

definition initial_vars :: "state \<Rightarrow> vars" where
  "initial_vars st =
     \<lparr>currentBalance = Num (initialCapital st), totalGains = Num 0,
      yearDeposits = 0, yearReturns = Num 0\<rparr>"

definition calculateData :: "state \<Rightarrow> YearResult list" where
  "calculateData st = snd (fold (year_body st) [1..durationYears st] (initial_vars st, []))"

text \<open>The initial values of the references in the source.\<close>

definition default_state :: state where
  "default_state =
     \<lparr>initialCapital = 30000, durationYears = 15, reinvestGains = True,
      yieldPhases =
        [\<lparr>p_id = 1, p_startYear = 1, p_endYear = 15, p_rate = 6, p_customDuration = False\<rparr>],
      transactions =
        [\<lparr>t_id = 1, t_name = ''Savings Plan'', t_amount = 500, t_type = ''monthly'',
          t_startYear = 1, t_endYear = 15, t_customDuration = False\<rparr>]\<rparr>"

section \<open>\<^verbatim>\<open>totalInvested\<close> and \<^verbatim>\<open>taxInfo\<close>\<close>

definition totalInvested :: "state \<Rightarrow> real" where
  "totalInvested st =
     initialCapital st
     + fold (\<lambda>t acc.
               acc + t_amount t
                     * (if t_type t = ''monthly''
                        then of_int ((effectiveEnd st t - t_startYear t + 1) * 12) else 1))
            (transactions st) 0"

datatype error = TypeError

record TaxResult =
  ti_gains :: jsnum
  ti_tax :: jsnum
  ti_afterTax :: jsnum
  ti_inTodaysMoney :: jsnum
  ti_effectiveRate :: string

text \<open>Reading the last element of an empty result array throws a \<^verbatim>\<open>TypeError\<close>.\<close>

definition taxInfo :: "state \<Rightarrow> error + TaxResult" where
  "taxInfo st =
     (let results = calculateData st in
      if results = [] then Inl TypeError
      else
        let finalBalance = r_balance (last results);
            gains = Math_max (Num 0) (jsub finalBalance (Num (totalInvested st)));
            teilfreistellung = 0.30;
            taxableGains = jmul gains (Num (1 - teilfreistellung));
            freibetrag = 1000;
            taxableAfterFreibetrag = Math_max (Num 0) (jsub taxableGains (Num freibetrag));
            taxRate = 0.26375;
            tax = Math_round (jmul taxableAfterFreibetrag (Num taxRate));
            afterTax = jsub finalBalance tax;
            inflationFactor = Math_pow (Num 1.02) (of_int (durationYears st));
            inTodaysMoney =
              Math_round (jdiv (if jgt tax (Num 0) then afterTax else finalBalance) inflationFactor)
        in Inr \<lparr>ti_gains = gains, ti_tax = tax, ti_afterTax = afterTax,
                ti_inTodaysMoney = inTodaysMoney,
                ti_effectiveRate =
                  (if jgt gains (Num 0) then toFixed 1 (jmul (jdiv tax gains) (Num 100))
                   else ''0.0'')\<rparr>)"

section \<open>\<^verbatim>\<open>etfBenchmarks\<close>\<close>

record ETF =
  e_name :: string
  e_ticker :: string
  e_isin :: string
  e_ter :: real
  e_inception :: int
  e_returns :: "int \<rightharpoonup> real"

definition etfData :: "ETF list" where
  "etfData =
     [\<lparr>e_name = ''iShares S&P 500'', e_ticker = ''IUSA'', e_isin = ''IE0031442068'',
       e_ter = 0.07, e_inception = 2002,
       e_returns = map_of
         [(2003, 5.1), (2004, 3.6), (2005, 25.2), (2006, 3.3), (2007, - 5.7), (2008, - 38.4),
          (2009, 23.4), (2010, 22.3), (2011, 4.2), (2012, 14.3), (2013, 27.4), (2014, 28.7),
          (2015, 12.2), (2016, 14.4), (2017, 6.4), (2018, 0.0), (2019, 33.8), (2020, 8.5),
          (2021, 37.9), (2022, - 13.3), (2023, 21.6), (2024, 32.6), (2025, 4.0)]\<rparr>,
      \<lparr>e_name = ''iShares MSCI World'', e_ticker = ''IQQW'', e_isin = ''IE00B0M62Q58'',
       e_ter = 0.50, e_inception = 2005,
       e_returns = map_of
         [(2006, 7.4), (2007, - 1.7), (2008, - 37.6), (2009, 26.0), (2010, 19.5),
          (2011, - 2.4), (2012, 14.0), (2013, 21.2), (2014, 19.5), (2015, 10.4),
          (2016, 10.7), (2017, 7.5), (2018, - 4.1), (2019, 30.0), (2020, 6.3),
          (2021, 31.1), (2022, - 13.2), (2023, 19.2), (2024, 25.9), (2025, 6.8)]\<rparr>,
      \<lparr>e_name = ''SPDR MSCI ACWI IMI'', e_ticker = ''SPYI'', e_isin = ''IE00B3YLTY66'',
       e_ter = 0.17, e_inception = 2011,
       e_returns = map_of
         [(2012, 14.1), (2013, 17.5), (2014, 18.6), (2015, 8.8), (2016, 11.4),
          (2017, 8.9), (2018, - 4.9), (2019, 28.9), (2020, 6.7), (2021, 28.8),
          (2022, - 12.4), (2023, 16.9), (2024, 23.5), (2025, 8.1)]\<rparr>]"

record Benchmark =
  b_etf :: ETF
  b_cagr :: "string option"
  b_totalReturn :: string
  b_yearsAvailable :: nat
  b_yearsRequested :: int
  b_fromYear :: "int option"
  b_toYear :: "int option"

text \<open>The body of the loop over the years of the window: \<open>s\<close> is \<open>(cumulative, years)\<close>.\<close>

definition benchmark_step :: "ETF \<Rightarrow> int \<Rightarrow> real \<times> int list \<Rightarrow> real \<times> int list" where
  "benchmark_step etf y s =
     (case e_returns etf y of
        None \<Rightarrow> s
      | Some r \<Rightarrow> (fst s * (1 + r / 100), snd s @ [y]))"

definition benchmark_loop :: "state \<Rightarrow> ETF \<Rightarrow> real \<times> int list" where
  "benchmark_loop st etf =
     (let endYear = 2025; startYear = endYear - durationYears st + 1
      in fold (benchmark_step etf) [startYear..endYear] (1, []))"

text \<open>The function mapped over \<^verbatim>\<open>etfData\<close>; \<open>None\<close> is \<^verbatim>\<open>null\<close>.\<close>

definition benchmark :: "state \<Rightarrow> ETF \<Rightarrow> Benchmark" where
  "benchmark st etf =
     (let cumulative = fst (benchmark_loop st etf);
          years = snd (benchmark_loop st etf);
          n = length years;
          cagr = (if n > 0
                  then Some (jmul (jsub (Math_pow (Num cumulative) (1 / real n)) (Num 1)) (Num 100))
                  else None);
          totalReturn = (cumulative - 1) * 100
      in \<lparr>b_etf = etf,
          b_cagr = (case cagr of Some c \<Rightarrow> Some (toFixed 1 c) | None \<Rightarrow> None),
          b_totalReturn = toFixed 0 (Num totalReturn),
          b_yearsAvailable = n,
          b_yearsRequested = durationYears st,
          b_fromYear = (if length years > 0 then Some (hd years) else None),
          b_toYear = (if length years > 0 then Some (last years) else None)\<rparr>)"

definition etfBenchmarks :: "state \<Rightarrow> Benchmark list" where
  "etfBenchmarks st = map (benchmark st) etfData"

section \<open>The engine over any arithmetic\<close>

text \<open>
  The code once more, with every arithmetic operation of the source left open: \<open>'n\<close> is
  the type of the numbers, and an \<open>arith\<close> gives the number that an input or a literal
  denotes, the four operations, \<^verbatim>\<open>Math.pow\<close>, \<^verbatim>\<open>Math.round\<close>, \<^verbatim>\<open>Math.max\<close>, \<^verbatim>\<open>>\<close> and
  \<^verbatim>\<open>toFixed\<close>. Nothing is assumed of them, so a statement proved for every \<open>arith\<close> holds
  for the IEEE doubles of JavaScript, with their rounding, their infinities and their
  \<open>NaN\<close>, as it holds for the exact numbers above. Years and months are counted in
  integers.
\<close>

record 'n arith =
  ar_num :: "real \<Rightarrow> 'n"
  ar_add :: "'n \<Rightarrow> 'n \<Rightarrow> 'n"
  ar_sub :: "'n \<Rightarrow> 'n \<Rightarrow> 'n"
  ar_mul :: "'n \<Rightarrow> 'n \<Rightarrow> 'n"
  ar_div :: "'n \<Rightarrow> 'n \<Rightarrow> 'n"
  ar_pow :: "'n \<Rightarrow> 'n \<Rightarrow> 'n"
  ar_round :: "'n \<Rightarrow> 'n"
  ar_max :: "'n \<Rightarrow> 'n \<Rightarrow> 'n"
  ar_gt :: "'n \<Rightarrow> 'n \<Rightarrow> bool"
  ar_toFixed :: "nat \<Rightarrow> 'n \<Rightarrow> string"

record 'n YearResult_ar =
  y_year :: int
  y_balance :: 'n
  y_rate :: real
  y_deposits :: 'n
  y_returns :: 'n

record 'n vars_ar =
  v_currentBalance :: 'n
  v_totalGains :: 'n
  v_yearDeposits :: 'n
  v_yearReturns :: 'n

definition apply_transaction_ar ::
  "'n arith \<Rightarrow> state \<Rightarrow> int \<Rightarrow> int \<Rightarrow> Transaction \<Rightarrow> 'n vars_ar \<Rightarrow> 'n vars_ar" where
  "apply_transaction_ar ar st year month t v =
     (if isActive st year t then
        (if t_type t = ''monthly'' then
           v\<lparr>v_currentBalance := ar_add ar (v_currentBalance v) (ar_num ar (t_amount t)),
             v_yearDeposits := ar_add ar (v_yearDeposits v) (ar_num ar (t_amount t))\<rparr>
         else if t_type t = ''once'' \<and> month = 1 then
           v\<lparr>v_currentBalance := ar_add ar (v_currentBalance v) (ar_num ar (t_amount t)),
             v_yearDeposits := ar_add ar (v_yearDeposits v) (ar_num ar (t_amount t))\<rparr>
         else v)
      else v)"

definition month_body_ar ::
  "'n arith \<Rightarrow> state \<Rightarrow> int \<Rightarrow> 'n \<Rightarrow> int \<Rightarrow> 'n vars_ar \<Rightarrow> 'n vars_ar" where
  "month_body_ar ar st year rate month v =
     (let v = fold (apply_transaction_ar ar st year month) (transactions st) v;
          monthlyGain = ar_mul ar (v_currentBalance v) rate;
          v = v\<lparr>v_yearReturns := ar_add ar (v_yearReturns v) monthlyGain\<rparr>;
          v = (if reinvestGains st
               then v\<lparr>v_currentBalance := ar_add ar (v_currentBalance v) monthlyGain\<rparr> else v)
      in v\<lparr>v_totalGains := ar_add ar (v_totalGains v) monthlyGain\<rparr>)"

definition monthlyRate_ar :: "'n arith \<Rightarrow> state \<Rightarrow> int \<Rightarrow> 'n" where
  "monthlyRate_ar ar st year =
     (let annualRate = ar_div ar (ar_num ar (phase_rate st year)) (ar_num ar 100)
      in ar_sub ar
           (ar_pow ar (ar_add ar (ar_num ar 1) annualRate) (ar_div ar (ar_num ar 1) (ar_num ar 12)))
           (ar_num ar 1))"

definition run_year_ar :: "'n arith \<Rightarrow> state \<Rightarrow> int \<Rightarrow> 'n vars_ar \<Rightarrow> 'n vars_ar" where
  "run_year_ar ar st year v =
     fold (month_body_ar ar st year (monthlyRate_ar ar st year)) [1..12]
       (v\<lparr>v_yearDeposits := ar_num ar 0, v_yearReturns := ar_num ar 0\<rparr>)"

definition year_result_ar :: "'n arith \<Rightarrow> state \<Rightarrow> int \<Rightarrow> 'n vars_ar \<Rightarrow> 'n YearResult_ar" where
  "year_result_ar ar st year v =
     \<lparr>y_year = year,
      y_balance = ar_round ar (if reinvestGains st then v_currentBalance v
                               else ar_add ar (v_currentBalance v) (v_totalGains v)),
      y_rate = phase_rate st year,
      y_deposits = ar_round ar (v_yearDeposits v),
      y_returns = ar_round ar (v_yearReturns v)\<rparr>"

definition year_body_ar ::
  "'n arith \<Rightarrow> state \<Rightarrow> int \<Rightarrow> 'n vars_ar \<times> 'n YearResult_ar list
   \<Rightarrow> 'n vars_ar \<times> 'n YearResult_ar list" where
  "year_body_ar ar st year s =
     (let v = run_year_ar ar st year (fst s) in (v, snd s @ [year_result_ar ar st year v]))"

definition initial_vars_ar :: "'n arith \<Rightarrow> state \<Rightarrow> 'n vars_ar" where
  "initial_vars_ar ar st =
     \<lparr>v_currentBalance = ar_num ar (initialCapital st), v_totalGains = ar_num ar 0,
      v_yearDeposits = ar_num ar 0, v_yearReturns = ar_num ar 0\<rparr>"

definition calculateData_ar :: "'n arith \<Rightarrow> state \<Rightarrow> 'n YearResult_ar list" where
  "calculateData_ar ar st =
     snd (fold (year_body_ar ar st) [1..durationYears st] (initial_vars_ar ar st, []))"

definition totalInvested_ar :: "'n arith \<Rightarrow> state \<Rightarrow> 'n" where
  "totalInvested_ar ar st =
     ar_add ar (ar_num ar (initialCapital st))
       (fold (\<lambda>t acc.
                ar_add ar acc
                  (ar_mul ar (ar_num ar (t_amount t))
                     (if t_type t = ''monthly''
                      then ar_mul ar
                             (ar_add ar
                                (ar_sub ar (ar_num ar (of_int (effectiveEnd st t)))
                                           (ar_num ar (of_int (t_startYear t))))
                                (ar_num ar 1))
                             (ar_num ar 12)
                      else ar_num ar 1)))
             (transactions st) (ar_num ar 0))"

record 'n TaxResult_ar =
  x_gains :: 'n
  x_tax :: 'n
  x_afterTax :: 'n
  x_inTodaysMoney :: 'n
  x_effectiveRate :: string

definition taxInfo_ar :: "'n arith \<Rightarrow> state \<Rightarrow> error + 'n TaxResult_ar" where
  "taxInfo_ar ar st =
     (let results = calculateData_ar ar st in
      if results = [] then Inl TypeError
      else
        let finalBalance = y_balance (last results);
            gains = ar_max ar (ar_num ar 0) (ar_sub ar finalBalance (totalInvested_ar ar st));
            teilfreistellung = ar_num ar 0.30;
            taxableGains = ar_mul ar gains (ar_sub ar (ar_num ar 1) teilfreistellung);
            freibetrag = ar_num ar 1000;
            taxableAfterFreibetrag = ar_max ar (ar_num ar 0) (ar_sub ar taxableGains freibetrag);
            taxRate = ar_num ar 0.26375;
            tax = ar_round ar (ar_mul ar taxableAfterFreibetrag taxRate);
            afterTax = ar_sub ar finalBalance tax;
            inflationFactor = ar_pow ar (ar_num ar 1.02) (ar_num ar (of_int (durationYears st)));
            inTodaysMoney =
              ar_round ar (ar_div ar (if ar_gt ar tax (ar_num ar 0) then afterTax else finalBalance)
                                     inflationFactor)
        in Inr \<lparr>x_gains = gains, x_tax = tax, x_afterTax = afterTax,
                x_inTodaysMoney = inTodaysMoney,
                x_effectiveRate =
                  (if ar_gt ar gains (ar_num ar 0)
                   then ar_toFixed ar 1 (ar_mul ar (ar_div ar tax gains) (ar_num ar 100))
                   else ''0.0'')\<rparr>)"

text \<open>The exact numbers of the first sections as one arithmetic.\<close>

definition exact :: "jsnum arith" where
  "exact =
     \<lparr>ar_num = Num, ar_add = jadd, ar_sub = jsub, ar_mul = jmul, ar_div = jdiv,
      ar_pow = (\<lambda>b e. case e of Num y \<Rightarrow> Math_pow b y | NaN \<Rightarrow> NaN),
      ar_round = Math_round, ar_max = Math_max, ar_gt = jgt, ar_toFixed = toFixed\<rparr>"

section \<open>Auxiliary definitions for the statements\<close>

subsection \<open>The loops, year by year and month by month\<close>

text \<open>The variables after the years \<open>ys\<close>, and the results those years push.\<close>

fun vars_after :: "state \<Rightarrow> int list \<Rightarrow> vars \<Rightarrow> vars" where
  "vars_after st [] v = v"
| "vars_after st (y # ys) v = vars_after st ys (run_year st y v)"

fun results_of :: "state \<Rightarrow> int list \<Rightarrow> vars \<Rightarrow> YearResult list" where
  "results_of st [] v = []"
| "results_of st (y # ys) v =
     year_result st y (run_year st y v) # results_of st ys (run_year st y v)"

text \<open>
  What one transaction adds to the balance in a given month of a given year (0 when the
  loop body leaves the balance alone), and the sum over the transactions.
\<close>

definition applied_amount :: "state \<Rightarrow> int \<Rightarrow> int \<Rightarrow> Transaction \<Rightarrow> real" where
  "applied_amount st year month t =
     (if isActive st year t \<and> (t_type t = ''monthly'' \<or> t_type t = ''once'' \<and> month = 1)
      then t_amount t else 0)"

definition month_deposits :: "state \<Rightarrow> int \<Rightarrow> int \<Rightarrow> real" where
  "month_deposits st year month = sum_list (map (applied_amount st year month) (transactions st))"


text \<open>What \<^verbatim>\<open>totalInvested\<close> adds for one transaction.\<close>

definition invested_amount :: "state \<Rightarrow> Transaction \<Rightarrow> real" where
  "invested_amount st t =
     t_amount t * (if t_type t = ''monthly''
                   then of_int ((effectiveEnd st t - t_startYear t + 1) * 12) else 1)"

subsection \<open>The two recurrences of the fifteen-year example\<close>

text \<open>
  The recurrence of section 8 of the specification, \<open>balance\<^sub>m = balance\<^sub>m\<^sub>-\<^sub>1 (1 + r\<^sub>m) + deposit\<close>
  with \<open>r\<^sub>m = 1.06\<^bsup>1/12\<^esup> - 1\<close>, deposit 500 and start 30000 (the gain first, then the deposit).
\<close>

fun gain_then_deposit :: "nat \<Rightarrow> real" where
  "gain_then_deposit 0 = 30000"
| "gain_then_deposit (Suc m) = gain_then_deposit m * (1 + (1.06 powr (1 / 12) - 1)) + 500"

text \<open>The same with the deposit first: the gain of a month is computed after the deposit.\<close>

fun deposit_then_gain :: "nat \<Rightarrow> real" where
  "deposit_then_gain 0 = 30000"
| "deposit_then_gain (Suc m) = (deposit_then_gain m + 500) * (1 + (1.06 powr (1 / 12) - 1))"

subsection \<open>Example inputs\<close>

text \<open>
  The inputs at which the statements below are evaluated: two overlapping yield phases; a
  plan with a monthly and a one-time transaction, without reinvestment; a rate of -200 %;
  no phase and no transaction; a transaction of an unknown type; monthly transactions and
  a phase whose end year is below the start year; a rate of 100 % for one year, with
  reinvestment and, with a savings plan, without; amounts whose sum ends in .5; a
  withdrawal after the last year; a return table with a missing year; durations of two
  and three years.
\<close>

definition overlap_state :: state where
  "overlap_state =
     \<lparr>initialCapital = 1000, durationYears = 10, reinvestGains = True,
      yieldPhases =
        [\<lparr>p_id = 1, p_startYear = 1, p_endYear = 8, p_rate = 6, p_customDuration = True\<rparr>,
         \<lparr>p_id = 2, p_startYear = 3, p_endYear = 7, p_rate = 2, p_customDuration = True\<rparr>],
      transactions = []\<rparr>"





definition calm_state :: state where
  "calm_state =
     \<lparr>initialCapital = 1000, durationYears = 1, reinvestGains = True,
      yieldPhases = [], transactions = []\<rparr>"

definition weekly_tx :: Transaction where
  "weekly_tx = \<lparr>t_id = 1, t_name = ''Weekly'', t_amount = 100, t_type = ''weekly'',
                 t_startYear = 1, t_endYear = 1, t_customDuration = False\<rparr>"

definition weekly_state :: state where
  "weekly_state =
     \<lparr>initialCapital = 1000, durationYears = 1, reinvestGains = True, yieldPhases = [],
      transactions = [weekly_tx]\<rparr>"

definition inverted_tx :: Transaction where
  "inverted_tx = \<lparr>t_id = 1, t_name = ''Savings Plan'', t_amount = 500, t_type = ''monthly'',
                   t_startYear = 2, t_endYear = 1, t_customDuration = True\<rparr>"

definition inverted_state :: state where
  "inverted_state =
     \<lparr>initialCapital = 1000, durationYears = 5, reinvestGains = True, yieldPhases = [],
      transactions = [inverted_tx]\<rparr>"

definition gap_tx :: Transaction where
  "gap_tx = \<lparr>t_id = 2, t_name = ''Savings Plan'', t_amount = 500, t_type = ''monthly'',
              t_startYear = 4, t_endYear = 1, t_customDuration = True\<rparr>"

definition inverted_phase :: YieldPhase where
  "inverted_phase =
     \<lparr>p_id = 2, p_startYear = 3, p_endYear = 2, p_rate = 9, p_customDuration = True\<rparr>"

definition doubling_state :: state where
  "doubling_state =
     \<lparr>initialCapital = 5000, durationYears = 1, reinvestGains = True,
      yieldPhases =
        [\<lparr>p_id = 1, p_startYear = 1, p_endYear = 1, p_rate = 100, p_customDuration = False\<rparr>],
      transactions = []\<rparr>"

definition plain_state :: state where
  "plain_state =
     \<lparr>initialCapital = 1000, durationYears = 1, reinvestGains = False,
      yieldPhases =
        [\<lparr>p_id = 1, p_startYear = 1, p_endYear = 1, p_rate = 100, p_customDuration = False\<rparr>],
      transactions =
        [\<lparr>t_id = 1, t_name = ''Savings Plan'', t_amount = 100, t_type = ''monthly'',
          t_startYear = 1, t_endYear = 1, t_customDuration = False\<rparr>]\<rparr>"

definition tie_state :: state where
  "tie_state =
     \<lparr>initialCapital = 0, durationYears = 1, reinvestGains = False, yieldPhases = [],
      transactions =
        [\<lparr>t_id = 1, t_name = ''Savings Plan'', t_amount = 300.10, t_type = ''monthly'',
          t_startYear = 1, t_endYear = 1, t_customDuration = False\<rparr>,
         \<lparr>t_id = 2, t_name = ''Extra Deposit'', t_amount = 100.30, t_type = ''once'',
          t_startYear = 1, t_endYear = 1, t_customDuration = False\<rparr>]\<rparr>"

definition withdrawn :: "real \<Rightarrow> state" where
  "withdrawn g =
     \<lparr>initialCapital = 50000, durationYears = 1, reinvestGains = True, yieldPhases = [],
      transactions =
        [\<lparr>t_id = 1, t_name = ''Withdrawal'', t_amount = - g, t_type = ''once'',
          t_startYear = 2, t_endYear = 2, t_customDuration = False\<rparr>]\<rparr>"

definition gap_etf :: ETF where
  "gap_etf =
     \<lparr>e_name = ''Gap'', e_ticker = ''GAP'', e_isin = ''XX0000000000'', e_ter = 0.1,
      e_inception = 2022, e_returns = map_of [(2023, 10), (2025, 20)]\<rparr>"

definition two_year_state :: state where
  "two_year_state =
     \<lparr>initialCapital = 30000, durationYears = 2, reinvestGains = True,
      yieldPhases = [], transactions = []\<rparr>"

definition three_year_state :: state where
  "three_year_state =
     \<lparr>initialCapital = 30000, durationYears = 3, reinvestGains = True,
      yieldPhases = [], transactions = []\<rparr>"

subsection \<open>The loops and the amounts, over any arithmetic\<close>

fun vars_after_ar :: "'n arith \<Rightarrow> state \<Rightarrow> int list \<Rightarrow> 'n vars_ar \<Rightarrow> 'n vars_ar" where
  "vars_after_ar ar st [] v = v"
| "vars_after_ar ar st (y # ys) v = vars_after_ar ar st ys (run_year_ar ar st y v)"

fun results_of_ar ::
  "'n arith \<Rightarrow> state \<Rightarrow> int list \<Rightarrow> 'n vars_ar \<Rightarrow> 'n YearResult_ar list" where
  "results_of_ar ar st [] v = []"
| "results_of_ar ar st (y # ys) v =
     year_result_ar ar st y (run_year_ar ar st y v)
     # results_of_ar ar st ys (run_year_ar ar st y v)"

text \<open>Whether the loop body adds the amount of a transaction in a month of a year.\<close>

definition applies :: "state \<Rightarrow> int \<Rightarrow> int \<Rightarrow> Transaction \<Rightarrow> bool" where
  "applies st year month t =
     (isActive st year t \<and> (t_type t = ''monthly'' \<or> t_type t = ''once'' \<and> month = 1))"

text \<open>The amounts added in a month, in the order of the transactions, and those of a year,
  month after month.\<close>

definition amounts :: "'n arith \<Rightarrow> state \<Rightarrow> int \<Rightarrow> int \<Rightarrow> 'n list" where
  "amounts ar st year month =
     map (\<lambda>t. ar_num ar (t_amount t)) (filter (applies st year month) (transactions st))"

definition year_amounts :: "'n arith \<Rightarrow> state \<Rightarrow> int \<Rightarrow> 'n list" where
  "year_amounts ar st year = concat (map (amounts ar st year) [1..12])"

text \<open>
  The principal after year \<open>y\<close>: the initial capital with the amounts of the years 1 to \<open>y\<close>
  added one after the other. No rate and no gain occurs in it.
\<close>

definition principal_ar :: "'n arith \<Rightarrow> state \<Rightarrow> int \<Rightarrow> 'n" where
  "principal_ar ar st y =
     foldl (ar_add ar) (ar_num ar (initialCapital st)) (concat (map (year_amounts ar st) [1..y]))"

text \<open>The months of the years 1 to \<open>y\<close>, as pairs of a year and a month.\<close>

definition months_upto :: "int \<Rightarrow> (int \<times> int) list" where
  "months_upto y = concat (map (\<lambda>k. map (\<lambda>m. (k, m)) [1..12]) [1..y])"

text \<open>
  The balance and the accumulated gains month by month, as the reinvestment policy is
  described: the amounts of the month are added to the balance, the gain of the month is
  the balance times the monthly rate of the year, it is always added to the accumulated
  gains, and to the balance when gains are reinvested.
\<close>

fun run_months :: "'n arith \<Rightarrow> state \<Rightarrow> (int \<times> int) list \<Rightarrow> 'n \<times> 'n \<Rightarrow> 'n \<times> 'n" where
  "run_months ar st [] s = s"
| "run_months ar st (km # kms) s =
     (let b = foldl (ar_add ar) (fst s) (amounts ar st (fst km) (snd km));
          gain = ar_mul ar b (monthlyRate_ar ar st (fst km))
      in run_months ar st kms
           (if reinvestGains st then ar_add ar b gain else b, ar_add ar (snd s) gain))"

subsection \<open>The exact engine as an instance\<close>

text \<open>The variables and the results of the exact engine, read as those of the engine over
  the arithmetic \<open>exact\<close>.\<close>

definition exact_vars :: "vars \<Rightarrow> jsnum vars_ar" where
  "exact_vars v =
     \<lparr>v_currentBalance = currentBalance v, v_totalGains = totalGains v,
      v_yearDeposits = Num (yearDeposits v), v_yearReturns = yearReturns v\<rparr>"

definition exact_result :: "YearResult \<Rightarrow> jsnum YearResult_ar" where
  "exact_result r =
     \<lparr>y_year = r_year r, y_balance = r_balance r, y_rate = r_rate r,
      y_deposits = Num (r_deposits r), y_returns = r_returns r\<rparr>"

definition exact_tax :: "TaxResult \<Rightarrow> jsnum TaxResult_ar" where
  "exact_tax r =
     \<lparr>x_gains = ti_gains r, x_tax = ti_tax r, x_afterTax = ti_afterTax r,
      x_inTodaysMoney = ti_inTodaysMoney r, x_effectiveRate = ti_effectiveRate r\<rparr>"

subsection \<open>Accurate arithmetics\<close>

text \<open>
  An arithmetic on reals and \<open>NaN\<close> is accurate when it rounds as IEEE double arithmetic
  does: as long as the exact result is 0 or has a magnitude between \<open>10\<^sup>-\<^sup>3\<^sup>0\<^sup>0\<close> and \<open>10\<^sup>3\<^sup>0\<^sup>0\<close>,
  a literal, a difference and a product are off by at most the fraction \<open>2\<^sup>-\<^sup>5\<^sup>3\<close> of the exact
  result; \<^verbatim>\<open>Math.max\<close> and \<^verbatim>\<open>>\<close> are exact, and so is \<^verbatim>\<open>Math.round\<close> up to \<open>2\<^sup>5\<^sup>2\<close>. The exact
  arithmetic is accurate, with error 0, and so is the arithmetic \<open>binary64\<close> defined next.
\<close>

definition in_range :: "real \<Rightarrow> bool" where
  "in_range x = (x = 0 \<or> (1 / 10 ^ 300 \<le> \<bar>x\<bar> \<and> \<bar>x\<bar> \<le> 10 ^ 300))"

definition accurate :: "jsnum arith \<Rightarrow> bool" where
  "accurate ac =
     ((\<forall>x. in_range x \<longrightarrow> (\<exists>z. ar_num ac x = Num z \<and> \<bar>z - x\<bar> \<le> \<bar>x\<bar> / 2 ^ 53))
      \<and> (\<forall>x y. in_range (x - y) \<longrightarrow>
             (\<exists>z. ar_sub ac (Num x) (Num y) = Num z \<and> \<bar>z - (x - y)\<bar> \<le> \<bar>x - y\<bar> / 2 ^ 53))
      \<and> (\<forall>x y. in_range (x * y) \<longrightarrow>
             (\<exists>z. ar_mul ac (Num x) (Num y) = Num z \<and> \<bar>z - x * y\<bar> \<le> \<bar>x * y\<bar> / 2 ^ 53))
      \<and> (\<forall>x y. ar_max ac (Num x) (Num y) = Num (max x y))
      \<and> (\<forall>x. \<bar>x\<bar> \<le> 2 ^ 52 \<longrightarrow> ar_round ac (Num x) = Num (of_int \<lfloor>x + 1 / 2\<rfloor>))
      \<and> (\<forall>x y. ar_gt ac (Num x) (Num y) = (x > y)))"

subsection \<open>Binary floating point\<close>

text \<open>
  JavaScript numbers are IEEE 754 binary64 numbers. \<open>rnd\<close> rounds a real number to the nearest
  number with 53 significant bits, a tie going to the one with an even last bit. In the
  arithmetic \<open>binary64\<close> an input or a literal denotes its rounded value, and \<^verbatim>\<open>+\<close>, \<^verbatim>\<open>-\<close>, \<^verbatim>\<open>*\<close>,
  \<^verbatim>\<open>/\<close> and \<^verbatim>\<open>Math.pow\<close> return the rounded exact result (for \<^verbatim>\<open>Math.pow\<close> an idealisation; it
  is evaluated below at base 1 only, where it is exact); \<^verbatim>\<open>Math.round\<close>, \<^verbatim>\<open>Math.max\<close>, \<^verbatim>\<open>>\<close>
  and \<^verbatim>\<open>toFixed\<close> work on the exact value of their arguments. The exponent is not bounded:
  there is no overflow to an infinity and no subnormal number, and zero has no sign.
\<close>

definition round_even :: "real \<Rightarrow> int" where
  "round_even q =
     (let f = \<lfloor>q\<rfloor> in
      if q - of_int f < 1 / 2 then f
      else if q - of_int f > 1 / 2 then f + 1
      else if even f then f else f + 1)"

definition rnd :: "real \<Rightarrow> real" where
  "rnd x =
     (if x = 0 then 0
      else let u = 2 powr of_int (\<lfloor>log 2 \<bar>x\<bar>\<rfloor> - 52)
           in of_int (round_even (x / u)) * u)"

fun jrnd :: "jsnum \<Rightarrow> jsnum" where
  "jrnd (Num x) = Num (rnd x)"
| "jrnd NaN = NaN"

definition binary64 :: "jsnum arith" where
  "binary64 =
     \<lparr>ar_num = (\<lambda>x. Num (rnd x)),
      ar_add = (\<lambda>a b. jrnd (jadd a b)),
      ar_sub = (\<lambda>a b. jrnd (jsub a b)),
      ar_mul = (\<lambda>a b. jrnd (jmul a b)),
      ar_div = (\<lambda>a b. jrnd (jdiv a b)),
      ar_pow = (\<lambda>b e. case e of Num y \<Rightarrow> jrnd (Math_pow b y) | NaN \<Rightarrow> NaN),
      ar_round = Math_round, ar_max = Math_max, ar_gt = jgt, ar_toFixed = toFixed\<rparr>"

section \<open>The loop over the years\<close>

lemma fold_year_body:
  "fold (year_body st) ys (v, rs) = (vars_after st ys v, rs @ results_of st ys v)"
  by (induction ys arbitrary: v rs) (simp_all add: year_body_def Let_def)

lemma calculateData_results_of:
  "calculateData st = results_of st [1..durationYears st] (initial_vars st)"
  by (simp add: calculateData_def fold_year_body)

lemma length_results_of: "length (results_of st ys v) = length ys"
  by (induction ys arbitrary: v) simp_all

lemma years_results_of: "map r_year (results_of st ys v) = ys"
  by (induction ys arbitrary: v) (simp_all add: year_result_def)

lemma vars_after_append:
  "vars_after st (ys @ zs) v = vars_after st zs (vars_after st ys v)"
  by (induction ys arbitrary: v) simp_all

lemma results_of_append:
  "results_of st (ys @ zs) v = results_of st ys v @ results_of st zs (vars_after st ys v)"
  by (induction ys arbitrary: v) simp_all

lemma results_of_snoc:
  "results_of st (ys @ [y]) v =
     results_of st ys v @ [year_result st y (vars_after st (ys @ [y]) v)]"
  by (simp add: results_of_append vars_after_append)

text \<open>The result of year \<open>y\<close> is built from the variables as they are after the years 1 to \<open>y\<close>.\<close>

lemma calculateData_nth:
  assumes "1 \<le> y" "y \<le> durationYears st"
  shows "calculateData st ! nat (y - 1) = year_result st y (vars_after st [1..y] (initial_vars st))"
proof -
  have split: "[1..durationYears st] = ([1..y - 1] @ [y]) @ [y + 1..durationYears st]"
    using assms upto_split3 [of 1 y "durationYears st"] by simp
  have upto: "[1..y] = [1..y - 1] @ [y]"
    using assms by (simp add: upto_rec2)
  have len: "length (results_of st [1..y - 1] (initial_vars st)) = nat (y - 1)"
    by (simp add: length_results_of)
  show ?thesis
    unfolding calculateData_results_of split results_of_append [of st "[1..y - 1] @ [y]"]
      results_of_snoc upto
    using len by (simp add: nth_append)
qed

text \<open>
  C7. For a duration of at least one year, \<^verbatim>\<open>calculateData\<close> returns exactly
  \<open>durationYears\<close> results, and their years are 1, 2, ..., \<open>durationYears\<close> in this order.
\<close>

theorem calculateData_years:
  assumes "1 \<le> durationYears st"
  shows "int (length (calculateData st)) = durationYears st
         \<and> map r_year (calculateData st) = [1..durationYears st]"
  using assms by (simp add: calculateData_results_of length_results_of years_results_of)

text \<open>
  The initial configuration runs fifteen years and has the results of the years 1 to 15.
\<close>

theorem calculateData_years_witness:
  "1 \<le> durationYears default_state
   \<and> length (calculateData default_state) = 15
   \<and> map r_year (calculateData default_state) = [1, 2, 3, 4, 5, 6, 7, 8, 9, 10, 11, 12, 13, 14, 15]"
  using calculateData_years [of default_state]
  by (simp add: default_state_def upto_rec1)

section \<open>One month\<close>

lemma jadd_Num_0 [simp]: "jadd b (Num 0) = b"
  by (cases b) simp_all

lemma jadd_Num_Num: "jadd (jadd b (Num x)) (Num y) = jadd b (Num (x + y))"
  by (cases b) simp_all

lemma apply_transaction_eq:
  "apply_transaction st year month t v =
     v\<lparr>currentBalance := jadd (currentBalance v) (Num (applied_amount st year month t)),
       yearDeposits := yearDeposits v + applied_amount st year month t\<rparr>"
  by (simp add: apply_transaction_def applied_amount_def)

lemma fold_apply_transaction:
  "fold (apply_transaction st year month) ts v =
     v\<lparr>currentBalance :=
         jadd (currentBalance v) (Num (sum_list (map (applied_amount st year month) ts))),
       yearDeposits := yearDeposits v + sum_list (map (applied_amount st year month) ts)\<rparr>"
  by (induction ts arbitrary: v) (simp_all add: apply_transaction_eq jadd_Num_Num add.assoc)

lemma month_body_eq:
  "month_body st year r month v =
     (let b = jadd (currentBalance v) (Num (month_deposits st year month));
          g = jmul b r
      in \<lparr>currentBalance = (if reinvestGains st then jadd b g else b),
          totalGains = jadd (totalGains v) g,
          yearDeposits = yearDeposits v + month_deposits st year month,
          yearReturns = jadd (yearReturns v) g\<rparr>)"
  by (simp add: month_body_def fold_apply_transaction month_deposits_def Let_def)

section \<open>The initial configuration over fifteen years\<close>

lemma phase_rate_default:
  "1 \<le> y \<Longrightarrow> y \<le> 15 \<Longrightarrow> phase_rate default_state y = 6"
  by (simp add: phase_rate_def default_state_def)

lemma monthlyRate_default:
  "1 \<le> y \<Longrightarrow> y \<le> 15 \<Longrightarrow> monthlyRate default_state y = Num (1.06 powr (1 / 12) - 1)"
  by (simp add: monthlyRate_def phase_rate_default Math_pow_def)

lemma month_deposits_default:
  "1 \<le> y \<Longrightarrow> y \<le> 15 \<Longrightarrow> month_deposits default_state y m = 500"
  by (simp add: month_deposits_def applied_amount_def isActive_def effectiveEnd_def
      default_state_def)

lemma reinvest_default: "reinvestGains default_state"
  by (simp add: default_state_def)

lemma month_body_default:
  assumes "1 \<le> y" "y \<le> 15" "currentBalance v = Num (deposit_then_gain k)"
  shows "currentBalance (month_body default_state y (Num (1.06 powr (1 / 12) - 1)) m v)
         = Num (deposit_then_gain (Suc k))"
  using assms reinvest_default
  by (simp add: month_body_eq month_deposits_default Let_def algebra_simps)

lemma months_default:
  assumes "1 \<le> y" "y \<le> 15" "currentBalance v = Num (deposit_then_gain k)"
  shows "currentBalance (fold (month_body default_state y (Num (1.06 powr (1 / 12) - 1))) ms v)
         = Num (deposit_then_gain (k + length ms))"
  using assms(3)
proof (induction ms arbitrary: v k)
  case Nil
  then show ?case by simp
next
  case (Cons m ms)
  have "currentBalance (month_body default_state y (Num (1.06 powr (1 / 12) - 1)) m v)
        = Num (deposit_then_gain (Suc k))"
    using assms(1,2) Cons.prems by (rule month_body_default)
  from Cons.IH [OF this] show ?case by simp
qed

lemma run_year_default:
  assumes "1 \<le> y" "y \<le> 15" "currentBalance v = Num (deposit_then_gain k)"
  shows "currentBalance (run_year default_state y v) = Num (deposit_then_gain (k + 12))"
  using months_default [OF assms(1,2), of "v\<lparr>yearDeposits := 0, yearReturns := Num 0\<rparr>" k "[1..12]"]
    assms
  by (simp add: run_year_def monthlyRate_default)

lemma vars_after_default:
  assumes "\<forall>y\<in>set ys. 1 \<le> y \<and> y \<le> 15" "currentBalance v = Num (deposit_then_gain k)"
  shows "currentBalance (vars_after default_state ys v)
         = Num (deposit_then_gain (k + 12 * length ys))"
  using assms
proof (induction ys arbitrary: v k)
  case Nil
  then show ?case by simp
next
  case (Cons y ys)
  have "currentBalance (run_year default_state y v) = Num (deposit_then_gain (k + 12))"
    using Cons.prems by (simp add: run_year_default)
  from Cons.IH [OF _ this] Cons.prems(1) show ?case by (simp add: add.assoc)
qed

lemma default_vars_15:
  "currentBalance (vars_after default_state [1..15] (initial_vars default_state))
   = Num (deposit_then_gain 180)"
proof -
  have "currentBalance (vars_after default_state [1..15] (initial_vars default_state))
        = Num (deposit_then_gain (0 + 12 * length [1..15::int]))"
    by (rule vars_after_default) (simp_all add: initial_vars_def default_state_def)
  then show ?thesis by simp
qed

lemma default_result_15:
  "calculateData default_state ! 14
   = year_result default_state 15 (vars_after default_state [1..15] (initial_vars default_state))"
proof -
  have "calculateData default_state ! nat (15 - 1)
        = year_result default_state 15
            (vars_after default_state [1..15] (initial_vars default_state))"
    by (rule calculateData_nth) (simp_all add: default_state_def)
  then show ?thesis by simp
qed

lemma default_balance_15:
  "r_balance (calculateData default_state ! 14) = Math_round (Num (deposit_then_gain 180))"
  by (simp add: default_result_15 default_vars_15 year_result_def reinvest_default)

lemma twelfth_root_power: "(1.06 powr (1 / 12)) ^ 12 = (1.06::real)"
  by (simp add: powr_power)

lemma recurrences_differ:
  "deposit_then_gain m - gain_then_deposit m = 500 * ((1.06 powr (1 / 12)) ^ m - 1)"
  by (induction m) (simp_all add: algebra_simps)

lemma difference_180: "deposit_then_gain 180 - gain_then_deposit 180 = 500 * (1.06 ^ 15 - 1)"
proof -
  have "((1.06::real) powr (1 / 12)) ^ 180 = ((1.06 powr (1 / 12)) ^ 12) ^ 15"
    by (simp add: power_mult [symmetric])
  then show ?thesis
    by (simp only: recurrences_differ twelfth_root_power)
qed

lemma floor_differs: "(1::real) \<le> d \<Longrightarrow> \<lfloor>x + d + 1 / 2\<rfloor> \<noteq> \<lfloor>x + 1 / 2\<rfloor>"
  by linarith

text \<open>
  C1, as stated, fails. For the initial configuration (capital 30000, 6 % over the years
  1 to 15, 500 a month, gains reinvested, 15 years) the balance recorded for year 15 is not
  the rounded value of the recurrence that adds the deposit after the gain of the month:
  the two values differ by \<open>500 (1.06\<^sup>1\<^sup>5 - 1)\<close>, about 698.
\<close>

theorem default_year15_not_gain_then_deposit:
  "r_balance (calculateData default_state ! 14) \<noteq> Math_round (Num (gain_then_deposit 180))"
proof -
  have d: "(1::real) \<le> 500 * (1.06 ^ 15 - 1)"
    by (simp add: power_divide)
  have e: "deposit_then_gain 180 = gain_then_deposit 180 + 500 * (1.06 ^ 15 - 1)"
    using difference_180 by simp
  show ?thesis
    unfolding default_balance_15 e using floor_differs [OF d, of "gain_then_deposit 180"] by simp
qed

text \<open>
  C1, amended. For the same configuration the fifteenth result is the one of year 15, and
  its balance is the rounded value of the recurrence
  \<open>balance\<^sub>m = (balance\<^sub>m\<^sub>-\<^sub>1 + 500) (1 + r\<^sub>m)\<close>, \<open>r\<^sub>m = 1.06\<^bsup>1/12\<^esup> - 1\<close>, after 180 months
  from 30000: the deposit of a month is added before the gain of that month is computed.
\<close>

theorem default_year15_deposit_then_gain:
  "r_year (calculateData default_state ! 14) = 15
   \<and> r_balance (calculateData default_state ! 14) = Math_round (Num (deposit_then_gain 180))"
  by (simp add: default_result_15 default_vars_15 year_result_def reinvest_default)

section \<open>The rate of a year\<close>

lemma r_rate_year_result [simp]: "r_rate (year_result st y v) = phase_rate st y"
  by (simp add: year_result_def)

lemma phase_rate_last:
  assumes "yieldPhases st = ps1 @ p # ps2" "p_startYear p \<le> y" "y \<le> p_endYear p"
    "\<forall>q\<in>set ps2. \<not> (p_startYear q \<le> y \<and> y \<le> p_endYear q)"
  shows "phase_rate st y = p_rate p"
proof -
  have "filter (\<lambda>q. p_startYear q \<le> y \<and> y \<le> p_endYear q) ps2 = []"
    using assms(4) by (simp add: filter_empty_conv)
  then show ?thesis
    using assms(1-3) by (simp add: phase_rate_def)
qed

lemma phase_rate_none:
  assumes "\<forall>q\<in>set (yieldPhases st). \<not> (p_startYear q \<le> y \<and> y \<le> p_endYear q)"
  shows "phase_rate st y = 0"
proof -
  have "filter (\<lambda>q. p_startYear q \<le> y \<and> y \<le> p_endYear q) (yieldPhases st) = []"
    using assms by (simp add: filter_empty_conv)
  then show ?thesis
    by (simp add: phase_rate_def)
qed

text \<open>
  C3. For every year \<open>y\<close> of the simulation: when the phases are \<open>ps1 @ p # ps2\<close>, \<open>p\<close>
  covers \<open>y\<close> (\<open>startYear \<le> y \<le> endYear\<close>) and no phase of \<open>ps2\<close> does, then \<open>p\<close> is the last
  covering phase in collection order, the rate reported for \<open>y\<close> is exactly the rate of
  \<open>p\<close>, whatever the phases before it, and the monthly rate of \<open>y\<close> is derived from that rate;
  when no phase covers \<open>y\<close> the reported rate is 0.
\<close>

theorem rate_resolution:
  assumes "1 \<le> y" "y \<le> durationYears st"
  shows "(yieldPhases st = ps1 @ p # ps2 \<and> p_startYear p \<le> y \<and> y \<le> p_endYear p
          \<and> (\<forall>q\<in>set ps2. \<not> (p_startYear q \<le> y \<and> y \<le> p_endYear q))
          \<longrightarrow> r_rate (calculateData st ! nat (y - 1)) = p_rate p
            \<and> monthlyRate st y = jsub (Math_pow (Num (1 + p_rate p / 100)) (1 / 12)) (Num 1))
       \<and> ((\<forall>q\<in>set (yieldPhases st). \<not> (p_startYear q \<le> y \<and> y \<le> p_endYear q))
          \<longrightarrow> r_rate (calculateData st ! nat (y - 1)) = 0)"
  using assms by (simp add: calculateData_nth phase_rate_last phase_rate_none monthlyRate_def)

text \<open>
  Two phases cover year 5 with the rates 6 and 2: the later one gives the rate. No phase
  covers year 9.
\<close>

theorem rate_resolution_witness:
  "r_rate (calculateData overlap_state ! 4) = 2 \<and> r_rate (calculateData overlap_state ! 8) = 0"
proof -
  let ?p1 = "\<lparr>p_id = 1, p_startYear = 1, p_endYear = 8, p_rate = 6, p_customDuration = True\<rparr>"
  let ?p2 = "\<lparr>p_id = 2, p_startYear = 3, p_endYear = 7, p_rate = 2, p_customDuration = True\<rparr>"
  have "r_rate (calculateData overlap_state ! nat (5 - 1)) = p_rate ?p2"
    using rate_resolution [of 5 overlap_state "[?p1]" ?p2 "[]"]
    by (simp add: overlap_state_def)
  moreover have "r_rate (calculateData overlap_state ! nat (9 - 1)) = 0"
    using rate_resolution [of 9 overlap_state "[]" ?p1 "[]"]
    by (simp add: overlap_state_def)
  ultimately show ?thesis by simp
qed

section \<open>The accumulators of a year\<close>



lemma jadd_0_left [simp]: "jadd (Num 0) b = b"
  by (cases b) simp_all


lemma months: "[1..12] = [1, 2, 3, 4, 5, 6, 7, 8, 9, 10, 11, 12::int]"
  by (simp add: upto_rec1)

lemma applied_amount_inactive:
  "\<not> isActive st y t \<Longrightarrow> applied_amount st y m t = 0"
  by (simp add: applied_amount_def)

lemma applied_amount_other:
  "t_type t \<noteq> ''monthly'' \<Longrightarrow> t_type t \<noteq> ''once'' \<Longrightarrow> applied_amount st y m t = 0"
  by (simp add: applied_amount_def)

section \<open>Non-finite numbers\<close>

lemma jmul_NaN [simp]: "jmul b NaN = NaN"
  by (cases b) simp_all

lemma jadd_NaN [simp]: "jadd b NaN = NaN"
  by (cases b) simp_all




















section \<open>Transactions and phases that match no year\<close>

lemma calculateData_cong:
  assumes "initialCapital s = initialCapital s'" "durationYears s = durationYears s'"
    "reinvestGains s = reinvestGains s'" "\<And>y. phase_rate s y = phase_rate s' y"
    "\<And>y m. month_deposits s y m = month_deposits s' y m"
  shows "calculateData s = calculateData s'"
proof -
  have mb: "month_body s = month_body s'"
    by (intro ext) (simp add: month_body_eq assms(3,5))
  have mr: "monthlyRate s = monthlyRate s'"
    by (intro ext) (simp add: monthlyRate_def assms(4))
  have ry: "run_year s = run_year s'"
    by (intro ext) (simp add: run_year_def mb mr)
  have yr: "year_result s = year_result s'"
    by (intro ext) (simp add: year_result_def assms(3,4))
  have "results_of s ys v = results_of s' ys v" for ys v
    by (induction ys arbitrary: v) (simp_all add: ry yr)
  moreover have "initial_vars s = initial_vars s'"
    by (simp add: initial_vars_def assms(1))
  ultimately show ?thesis
    by (simp add: calculateData_results_of assms(2))
qed

lemma applied_amount_transactions [simp]:
  "applied_amount (st\<lparr>transactions := ts\<rparr>) = applied_amount st"
  by (intro ext) (simp add: applied_amount_def isActive_def effectiveEnd_def)

lemma applied_amount_yieldPhases [simp]:
  "applied_amount (st\<lparr>yieldPhases := ps\<rparr>) = applied_amount st"
  by (intro ext) (simp add: applied_amount_def isActive_def effectiveEnd_def)

lemma phase_rate_transactions [simp]:
  "phase_rate (st\<lparr>transactions := ts\<rparr>) y = phase_rate st y"
  by (simp add: phase_rate_def)

lemma month_deposits_yieldPhases [simp]:
  "month_deposits (st\<lparr>yieldPhases := ps\<rparr>) y m = month_deposits st y m"
  by (simp add: month_deposits_def)

lemma calculateData_drop_transaction:
  assumes "\<And>y m. applied_amount st y m t = 0"
  shows "calculateData (st\<lparr>transactions := ts1 @ t # ts2\<rparr>)
         = calculateData (st\<lparr>transactions := ts1 @ ts2\<rparr>)"
  by (rule calculateData_cong) (simp_all add: month_deposits_def assms)

lemma fold_invested:
  "fold (\<lambda>t acc. acc + f t) ts a = a + sum_list (map f ts)" for a :: real
  by (induction ts arbitrary: a) (simp_all add: add.assoc)

lemma totalInvested_sum:
  "totalInvested st = initialCapital st + sum_list (map (invested_amount st) (transactions st))"
proof -
  have "(\<lambda>t acc. acc + t_amount t
                     * (if t_type t = ''monthly''
                        then of_int ((effectiveEnd st t - t_startYear t + 1) * 12) else 1))
        = (\<lambda>t acc. acc + invested_amount st t)"
    by (intro ext) (simp add: invested_amount_def)
  then show ?thesis
    by (simp add: totalInvested_def fold_invested)
qed

lemma invested_amount_transactions [simp]:
  "invested_amount (st\<lparr>transactions := ts\<rparr>) t = invested_amount st t"
  by (simp add: invested_amount_def effectiveEnd_def)

lemma totalInvested_drop_transaction:
  "totalInvested (st\<lparr>transactions := ts1 @ t # ts2\<rparr>)
   = totalInvested (st\<lparr>transactions := ts1 @ ts2\<rparr>) + invested_amount st t"
proof -
  have "invested_amount (st\<lparr>transactions := ts\<rparr>) = invested_amount st" for ts
    by (rule ext) simp
  then show ?thesis
    by (simp add: totalInvested_sum)
qed

lemma apply_transaction_other:
  "t_type t \<noteq> ''monthly'' \<Longrightarrow> t_type t \<noteq> ''once'' \<Longrightarrow> apply_transaction st y m t v = v"
  by (simp add: apply_transaction_def)

lemma inverted_inactive:
  "t_type t = ''monthly'' \<Longrightarrow> t_customDuration t \<Longrightarrow> t_endYear t < t_startYear t \<Longrightarrow>
   \<not> isActive st y t"
  by (simp add: isActive_def effectiveEnd_def)

lemma phase_rate_drop_inverted:
  assumes "p_endYear p < p_startYear p"
  shows "phase_rate (st\<lparr>yieldPhases := ps1 @ p # ps2\<rparr>) y
         = phase_rate (st\<lparr>yieldPhases := ps1 @ ps2\<rparr>) y"
proof -
  have "filter (\<lambda>q. p_startYear q \<le> y \<and> y \<le> p_endYear q) (ps1 @ p # ps2)
        = filter (\<lambda>q. p_startYear q \<le> y \<and> y \<le> p_endYear q) (ps1 @ ps2)"
    using assms by auto
  moreover have "yieldPhases (st\<lparr>yieldPhases := ps1 @ p # ps2\<rparr>) = ps1 @ p # ps2"
    and "yieldPhases (st\<lparr>yieldPhases := ps1 @ ps2\<rparr>) = ps1 @ ps2"
    by simp_all
  ultimately show ?thesis
    by (simp only: phase_rate_def)
qed

text \<open>
  C9, amended. No input is rejected. A transaction whose type is neither \<^verbatim>\<open>monthly\<close> nor
  \<^verbatim>\<open>once\<close> is left out by the loop body in every month of every year, the results are those
  of the same input without it, and \<^verbatim>\<open>totalInvested\<close> counts its amount once. A monthly
  transaction with custom duration and \<open>endYear < startYear\<close> is active in no year and changes
  no result; a yield phase with \<open>endYear < startYear\<close> covers no year and changes no result.
\<close>

theorem no_validation:
  "(t_type t \<noteq> ''monthly'' \<and> t_type t \<noteq> ''once'' \<longrightarrow>
      apply_transaction st y m t v = v
    \<and> calculateData (st\<lparr>transactions := ts1 @ t # ts2\<rparr>)
        = calculateData (st\<lparr>transactions := ts1 @ ts2\<rparr>)
    \<and> totalInvested (st\<lparr>transactions := ts1 @ t # ts2\<rparr>)
        = totalInvested (st\<lparr>transactions := ts1 @ ts2\<rparr>) + t_amount t)
   \<and> (t_type t = ''monthly'' \<and> t_customDuration t \<and> t_endYear t < t_startYear t \<longrightarrow>
        \<not> isActive st y t
      \<and> apply_transaction st y m t v = v
      \<and> calculateData (st\<lparr>transactions := ts1 @ t # ts2\<rparr>)
          = calculateData (st\<lparr>transactions := ts1 @ ts2\<rparr>))
   \<and> (p_endYear p < p_startYear p \<longrightarrow>
        phase_rate (st\<lparr>yieldPhases := ps1 @ p # ps2\<rparr>) y
          = phase_rate (st\<lparr>yieldPhases := ps1 @ ps2\<rparr>) y
      \<and> calculateData (st\<lparr>yieldPhases := ps1 @ p # ps2\<rparr>)
          = calculateData (st\<lparr>yieldPhases := ps1 @ ps2\<rparr>))"
proof -
  have a: "t_type t \<noteq> ''monthly'' \<and> t_type t \<noteq> ''once'' \<longrightarrow>
      apply_transaction st y m t v = v
    \<and> calculateData (st\<lparr>transactions := ts1 @ t # ts2\<rparr>)
        = calculateData (st\<lparr>transactions := ts1 @ ts2\<rparr>)
    \<and> totalInvested (st\<lparr>transactions := ts1 @ t # ts2\<rparr>)
        = totalInvested (st\<lparr>transactions := ts1 @ ts2\<rparr>) + t_amount t"
    by (simp add: apply_transaction_other calculateData_drop_transaction applied_amount_other
        totalInvested_drop_transaction invested_amount_def)
  have b: "t_type t = ''monthly'' \<and> t_customDuration t \<and> t_endYear t < t_startYear t \<longrightarrow>
        \<not> isActive st y t
      \<and> apply_transaction st y m t v = v
      \<and> calculateData (st\<lparr>transactions := ts1 @ t # ts2\<rparr>)
          = calculateData (st\<lparr>transactions := ts1 @ ts2\<rparr>)"
    by (simp add: inverted_inactive apply_transaction_def calculateData_drop_transaction
        applied_amount_inactive)
  have c: "p_endYear p < p_startYear p \<longrightarrow>
        phase_rate (st\<lparr>yieldPhases := ps1 @ p # ps2\<rparr>) y
          = phase_rate (st\<lparr>yieldPhases := ps1 @ ps2\<rparr>) y
      \<and> calculateData (st\<lparr>yieldPhases := ps1 @ p # ps2\<rparr>)
          = calculateData (st\<lparr>yieldPhases := ps1 @ ps2\<rparr>)"
  proof
    assume p: "p_endYear p < p_startYear p"
    have "calculateData (st\<lparr>yieldPhases := ps1 @ p # ps2\<rparr>)
          = calculateData (st\<lparr>yieldPhases := ps1 @ ps2\<rparr>)"
      by (rule calculateData_cong) (simp_all add: phase_rate_drop_inverted [OF p])
    then show "phase_rate (st\<lparr>yieldPhases := ps1 @ p # ps2\<rparr>) y
          = phase_rate (st\<lparr>yieldPhases := ps1 @ ps2\<rparr>) y
      \<and> calculateData (st\<lparr>yieldPhases := ps1 @ p # ps2\<rparr>)
          = calculateData (st\<lparr>yieldPhases := ps1 @ ps2\<rparr>)"
      by (simp add: phase_rate_drop_inverted [OF p])
  qed
  from a b c show ?thesis by blast
qed

text \<open>
  C10, amended. A monthly transaction with custom duration and \<open>endYear < startYear\<close> is
  applied in no month of any year, so the results are those of the same input without it,
  while \<^verbatim>\<open>totalInvested\<close> adds \<open>amount \<sqdot> (endYear - startYear + 1) \<sqdot> 12\<close> for it. This count
  is at most 0: it is negative, and a positive amount strictly decreases the total, when
  \<open>endYear < startYear - 1\<close>; it is 0, and the total is unchanged, when
  \<open>endYear = startYear - 1\<close>.
\<close>

theorem inverted_range_total:
  assumes "t_type t = ''monthly''" "t_customDuration t" "t_endYear t < t_startYear t"
  shows "\<not> isActive st y t
       \<and> apply_transaction st y m t v = v
       \<and> calculateData (st\<lparr>transactions := ts1 @ t # ts2\<rparr>)
           = calculateData (st\<lparr>transactions := ts1 @ ts2\<rparr>)
       \<and> totalInvested (st\<lparr>transactions := ts1 @ t # ts2\<rparr>)
           = totalInvested (st\<lparr>transactions := ts1 @ ts2\<rparr>)
             + t_amount t * of_int ((t_endYear t - t_startYear t + 1) * 12)
       \<and> (t_endYear t - t_startYear t + 1) * 12 \<le> 0
       \<and> (0 < t_amount t \<and> t_endYear t + 1 < t_startYear t \<longrightarrow>
            totalInvested (st\<lparr>transactions := ts1 @ t # ts2\<rparr>)
              < totalInvested (st\<lparr>transactions := ts1 @ ts2\<rparr>))
       \<and> (t_endYear t + 1 = t_startYear t \<longrightarrow>
            totalInvested (st\<lparr>transactions := ts1 @ t # ts2\<rparr>)
              = totalInvested (st\<lparr>transactions := ts1 @ ts2\<rparr>))"
proof -
  have inact: "\<not> isActive st y t" for y
    using assms by (rule inverted_inactive)
  have ia: "invested_amount st t = t_amount t * of_int ((t_endYear t - t_startYear t + 1) * 12)"
    using assms by (simp add: invested_amount_def effectiveEnd_def)
  have neg: "0 < t_amount t \<and> t_endYear t + 1 < t_startYear t \<longrightarrow>
             t_amount t * of_int ((t_endYear t - t_startYear t + 1) * 12) < 0"
  proof
    assume h: "0 < t_amount t \<and> t_endYear t + 1 < t_startYear t"
    then have "(t_endYear t - t_startYear t + 1) * 12 < 0"
      by simp
    then have "real_of_int ((t_endYear t - t_startYear t + 1) * 12) < 0"
      by (simp only: of_int_less_0_iff)
    with h show "t_amount t * of_int ((t_endYear t - t_startYear t + 1) * 12) < 0"
      by (simp add: mult_pos_neg)
  qed
  show ?thesis
    using assms(3) neg
    by (simp add: inact apply_transaction_def calculateData_drop_transaction
        applied_amount_inactive totalInvested_drop_transaction ia)
qed

subsection \<open>Years without a yield phase, and the examples\<close>

text \<open>One year without yield phase: no gain, the balance moves by the deposits only.\<close>

lemma monthlyRate_zero: "phase_rate st y = 0 \<Longrightarrow> monthlyRate st y = Num 0"
  by (simp add: monthlyRate_def Math_pow_def)

lemma months_zero_rate:
  assumes "currentBalance v = Num b" "totalGains v = Num g" "yearReturns v = Num r"
  shows "fold (month_body st y (Num 0)) ms v
         = \<lparr>currentBalance = Num (b + sum_list (map (month_deposits st y) ms)),
            totalGains = Num g,
            yearDeposits = yearDeposits v + sum_list (map (month_deposits st y) ms),
            yearReturns = Num r\<rparr>"
  using assms
proof (induction ms arbitrary: v b)
  case Nil
  then show ?case by simp
next
  case (Cons m ms)
  let ?w = "month_body st y (Num 0) m v"
  have "currentBalance ?w = Num (b + month_deposits st y m)" "totalGains ?w = Num g"
    "yearReturns ?w = Num r" "yearDeposits ?w = yearDeposits v + month_deposits st y m"
    using Cons.prems by (simp_all add: month_body_eq Let_def)
  with Cons.IH [of ?w "b + month_deposits st y m"] show ?case
    by (simp add: add.assoc)
qed

lemma run_year_zero_rate:
  assumes "phase_rate st y = 0" "currentBalance v = Num b" "totalGains v = Num g"
  shows "run_year st y v
         = \<lparr>currentBalance = Num (b + sum_list (map (month_deposits st y) [1..12])),
            totalGains = Num g,
            yearDeposits = sum_list (map (month_deposits st y) [1..12]),
            yearReturns = Num 0\<rparr>"
  unfolding run_year_def monthlyRate_zero [OF assms(1)]
  using assms(2,3) by (subst months_zero_rate [of _ b g 0]) simp_all

lemma calculateData_weekly:
  "calculateData weekly_state
   = [\<lparr>r_year = 1, r_balance = Num 1000, r_rate = 0, r_deposits = 0, r_returns = Num 0\<rparr>]"
proof -
  have pr: "phase_rate weekly_state 1 = 0"
    by (simp add: phase_rate_def weekly_state_def)
  have "month_deposits weekly_state 1 = (\<lambda>m. 0)"
    by (intro ext) (simp add: month_deposits_def applied_amount_def weekly_state_def weekly_tx_def)
  then have "run_year weekly_state 1 (initial_vars weekly_state)
        = \<lparr>currentBalance = Num 1000, totalGains = Num 0, yearDeposits = 0, yearReturns = Num 0\<rparr>"
    by (subst run_year_zero_rate [OF pr, of _ 1000 0])
       (simp_all add: initial_vars_def weekly_state_def)
  moreover have "durationYears weekly_state = 1" "reinvestGains weekly_state"
    by (simp_all add: weekly_state_def)
  ultimately show ?thesis
    by (simp add: calculateData_results_of year_result_def pr)
qed

lemma totalInvested_weekly: "totalInvested weekly_state = 1100"
  by (simp add: totalInvested_def weekly_state_def weekly_tx_def)

text \<open>
  C9, as stated, fails. With a transaction of type \<^verbatim>\<open>weekly\<close> the computation returns its
  results, \<^verbatim>\<open>totalInvested\<close> returns 1100 and \<^verbatim>\<open>taxInfo\<close> returns a tax result: nothing is
  rejected.
\<close>

theorem unknown_type_accepted:
  "calculateData weekly_state
     = [\<lparr>r_year = 1, r_balance = Num 1000, r_rate = 0, r_deposits = 0, r_returns = Num 0\<rparr>]
   \<and> totalInvested weekly_state = 1100
   \<and> taxInfo weekly_state
       = Inr \<lparr>ti_gains = Num 0, ti_tax = Num 0, ti_afterTax = Num 1000,
              ti_inTodaysMoney = Num 980, ti_effectiveRate = ''0.0''\<rparr>"
proof -
  have "durationYears weekly_state = 1"
    by (simp add: weekly_state_def)
  then have "taxInfo weekly_state
       = Inr \<lparr>ti_gains = Num 0, ti_tax = Num 0, ti_afterTax = Num 1000,
              ti_inTodaysMoney = Num 980, ti_effectiveRate = ''0.0''\<rparr>"
    by (simp add: taxInfo_def calculateData_weekly totalInvested_weekly Math_pow_def Let_def)
  then show ?thesis
    by (simp add: calculateData_weekly totalInvested_weekly)
qed

text \<open>
  A transaction of type \<^verbatim>\<open>weekly\<close>, a monthly transaction from year 2 to year 1 and a phase
  from year 3 to year 2.
\<close>

theorem no_validation_witness:
  "apply_transaction weekly_state 1 1 weekly_tx (initial_vars weekly_state)
     = initial_vars weekly_state
   \<and> calculateData weekly_state = calculateData (weekly_state\<lparr>transactions := []\<rparr>)
   \<and> totalInvested weekly_state = totalInvested (weekly_state\<lparr>transactions := []\<rparr>) + 100
   \<and> \<not> isActive inverted_state 1 inverted_tx
   \<and> calculateData inverted_state = calculateData (inverted_state\<lparr>transactions := []\<rparr>)
   \<and> phase_rate (overlap_state\<lparr>yieldPhases := [inverted_phase]\<rparr>) 3
       = phase_rate (overlap_state\<lparr>yieldPhases := []\<rparr>) 3"
proof -
  have w: "t_type weekly_tx \<noteq> ''monthly'' \<and> t_type weekly_tx \<noteq> ''once''"
    and wa: "t_amount weekly_tx = 100"
    by (simp_all add: weekly_tx_def)
  have ws: "weekly_state\<lparr>transactions := [] @ weekly_tx # []\<rparr> = weekly_state"
    by (simp add: weekly_state_def)
  have i: "t_type inverted_tx = ''monthly'' \<and> t_customDuration inverted_tx
           \<and> t_endYear inverted_tx < t_startYear inverted_tx"
    by (simp add: inverted_tx_def)
  have inv_st: "inverted_state\<lparr>transactions := [] @ inverted_tx # []\<rparr> = inverted_state"
    by (simp add: inverted_state_def)
  have p: "p_endYear inverted_phase < p_startYear inverted_phase"
    by (simp add: inverted_phase_def)
  from no_validation [where t = weekly_tx and st = weekly_state and y = 1 and m = 1
      and v = "initial_vars weekly_state" and ?ts1.0 = "[]" and ?ts2.0 = "[]"] w
  have a: "apply_transaction weekly_state 1 1 weekly_tx (initial_vars weekly_state)
     = initial_vars weekly_state
   \<and> calculateData weekly_state = calculateData (weekly_state\<lparr>transactions := []\<rparr>)
   \<and> totalInvested weekly_state = totalInvested (weekly_state\<lparr>transactions := []\<rparr>) + 100"
    unfolding ws wa by simp
  from no_validation [where t = inverted_tx and st = inverted_state and y = 1 and m = 1
      and v = "initial_vars inverted_state" and ?ts1.0 = "[]" and ?ts2.0 = "[]"] i
  have b: "\<not> isActive inverted_state 1 inverted_tx
   \<and> calculateData inverted_state = calculateData (inverted_state\<lparr>transactions := []\<rparr>)"
    unfolding inv_st by simp
  from no_validation [where st = overlap_state and p = inverted_phase and y = 3
      and ?ps1.0 = "[]" and ?ps2.0 = "[]"] p
  have c: "phase_rate (overlap_state\<lparr>yieldPhases := [inverted_phase]\<rparr>) 3
       = phase_rate (overlap_state\<lparr>yieldPhases := []\<rparr>) 3"
    by simp
  from a b c show ?thesis by blast
qed

text \<open>
  C10, as stated, fails. For a monthly transaction of 500 with custom duration, start year
  2 and end year 1 the count is 0 and the total invested is not decreased.
\<close>

theorem inverted_by_one_keeps_total:
  "\<not> totalInvested inverted_state < totalInvested (inverted_state\<lparr>transactions := []\<rparr>)"
  by (simp add: totalInvested_def inverted_state_def inverted_tx_def effectiveEnd_def)

text \<open>
  From year 2 to year 1 the count is 0 and the total is unchanged; from year 4 to year 1
  the count is -24 and the total invested falls by 12000.
\<close>

theorem inverted_range_total_witness:
  "calculateData inverted_state = calculateData (inverted_state\<lparr>transactions := []\<rparr>)
   \<and> totalInvested inverted_state = totalInvested (inverted_state\<lparr>transactions := []\<rparr>)
   \<and> calculateData (inverted_state\<lparr>transactions := [gap_tx]\<rparr>)
       = calculateData (inverted_state\<lparr>transactions := []\<rparr>)
   \<and> totalInvested (inverted_state\<lparr>transactions := [gap_tx]\<rparr>)
       = totalInvested (inverted_state\<lparr>transactions := []\<rparr>) + 500 * (- 24)
   \<and> totalInvested (inverted_state\<lparr>transactions := [gap_tx]\<rparr>)
       < totalInvested (inverted_state\<lparr>transactions := []\<rparr>)"
proof -
  have i: "t_type inverted_tx = ''monthly''" "t_customDuration inverted_tx"
    "t_endYear inverted_tx < t_startYear inverted_tx"
    by (simp_all add: inverted_tx_def)
  have inv_st: "inverted_state\<lparr>transactions := [] @ inverted_tx # []\<rparr> = inverted_state"
    by (simp add: inverted_state_def)
  have i1: "t_endYear inverted_tx + 1 = t_startYear inverted_tx"
    by (simp add: inverted_tx_def)
  have g: "t_type gap_tx = ''monthly''" "t_customDuration gap_tx"
    "t_endYear gap_tx < t_startYear gap_tx"
    by (simp_all add: gap_tx_def)
  have g1: "0 < t_amount gap_tx \<and> t_endYear gap_tx + 1 < t_startYear gap_tx"
    by (simp add: gap_tx_def)
  have g2: "t_amount gap_tx * of_int ((t_endYear gap_tx - t_startYear gap_tx + 1) * 12)
            = 500 * (- 24)"
    by (simp add: gap_tx_def)
  from inverted_range_total [OF i, where st = inverted_state and ?ts1.0 = "[]" and ?ts2.0 = "[]"] i1
  have a: "calculateData inverted_state = calculateData (inverted_state\<lparr>transactions := []\<rparr>)
   \<and> totalInvested inverted_state = totalInvested (inverted_state\<lparr>transactions := []\<rparr>)"
    unfolding inv_st by simp
  from inverted_range_total [OF g, where st = inverted_state and ?ts1.0 = "[]" and ?ts2.0 = "[]"] g1
  have b: "calculateData (inverted_state\<lparr>transactions := [gap_tx]\<rparr>)
       = calculateData (inverted_state\<lparr>transactions := []\<rparr>)
   \<and> totalInvested (inverted_state\<lparr>transactions := [gap_tx]\<rparr>)
       = totalInvested (inverted_state\<lparr>transactions := []\<rparr>) + 500 * (- 24)
   \<and> totalInvested (inverted_state\<lparr>transactions := [gap_tx]\<rparr>)
       < totalInvested (inverted_state\<lparr>transactions := []\<rparr>)"
    unfolding g2 by simp
  from a b show ?thesis by blast
qed

section \<open>Tax\<close>

lemma taxInfo_finite:
  assumes "calculateData st \<noteq> []" "r_balance (last (calculateData st)) = Num fb"
  shows "taxInfo st
         = (let g = max 0 (fb - totalInvested st);
                tx = of_int \<lfloor>max 0 (g * 0.7 - 1000) * 0.26375 + 1 / 2\<rfloor>
            in Inr \<lparr>ti_gains = Num g, ti_tax = Num tx, ti_afterTax = Num (fb - tx),
                    ti_inTodaysMoney =
                      Math_round (jdiv (Num (if tx > 0 then fb - tx else fb))
                                       (Math_pow (Num 1.02) (of_int (durationYears st)))),
                    ti_effectiveRate =
                      (if g > 0 then toFixed 1 (Num (tx / g * 100)) else ''0.0'')\<rparr>)"
  using assms by (simp add: taxInfo_def Let_def)

subsection \<open>A capital doubled in one year\<close>

lemma phase_rate_doubling: "phase_rate doubling_state 1 = 100"
  by (simp add: phase_rate_def doubling_state_def)

lemma monthlyRate_doubling: "monthlyRate doubling_state 1 = Num (2 powr (1 / 12) - 1)"
  by (simp add: monthlyRate_def phase_rate_doubling Math_pow_def)

lemma month_deposits_doubling: "month_deposits doubling_state y m = 0"
  by (simp add: month_deposits_def doubling_state_def)

lemma months_doubling:
  assumes "currentBalance v = Num b"
  shows "currentBalance (fold (month_body doubling_state 1 (Num (2 powr (1 / 12) - 1))) ms v)
         = Num (b * (2 powr (1 / 12)) ^ length ms)"
  using assms
proof (induction ms arbitrary: v b)
  case Nil
  then show ?case by simp
next
  case (Cons m ms)
  have "reinvestGains doubling_state"
    by (simp add: doubling_state_def)
  then have "currentBalance (month_body doubling_state 1 (Num (2 powr (1 / 12) - 1)) m v)
             = Num (b * 2 powr (1 / 12))"
    using Cons.prems by (simp add: month_body_eq month_deposits_doubling Let_def algebra_simps)
  from Cons.IH [OF this] show ?case
    by (simp add: mult.assoc)
qed

lemma twelfth_root_two: "(2 powr (1 / 12)) ^ 12 = (2::real)"
  by (simp add: powr_power)

lemma balance_doubling:
  "currentBalance (run_year doubling_state 1 (initial_vars doubling_state)) = Num 10000"
proof -
  have "currentBalance
          (fold (month_body doubling_state 1 (Num (2 powr (1 / 12) - 1))) [1..12]
             ((initial_vars doubling_state)\<lparr>yearDeposits := 0, yearReturns := Num 0\<rparr>))
        = Num (5000 * (2 powr (1 / 12)) ^ length [1..12::int])"
    by (rule months_doubling) (simp add: initial_vars_def doubling_state_def)
  then show ?thesis
    by (simp add: run_year_def monthlyRate_doubling twelfth_root_two)
qed

lemma calculateData_doubling:
  "calculateData doubling_state \<noteq> []
   \<and> r_balance (last (calculateData doubling_state)) = Num 10000"
proof -
  have "durationYears doubling_state = 1" "reinvestGains doubling_state"
    by (simp_all add: doubling_state_def)
  then show ?thesis
    by (simp add: calculateData_results_of year_result_def balance_doubling)
qed

lemma totalInvested_doubling: "totalInvested doubling_state = 5000"
  by (simp add: totalInvested_def doubling_state_def)

lemma taxInfo_doubling:
  "taxInfo doubling_state
   = Inr \<lparr>ti_gains = Num 5000, ti_tax = Num 659, ti_afterTax = Num 9341,
          ti_inTodaysMoney = Num 9158, ti_effectiveRate = ''13.2''\<rparr>"
proof -
  have d: "durationYears doubling_state = 1"
    by (simp add: doubling_state_def)
  have c: "calculateData doubling_state \<noteq> []"
    and b: "r_balance (last (calculateData doubling_state)) = Num 10000"
    using calculateData_doubling by simp_all
  show ?thesis
    unfolding taxInfo_finite [OF c b] totalInvested_doubling d
    by (simp add: Let_def Math_pow_def toFixed_def string_of_nat.simps digit_char_def)
qed

lemma calculateData_calm:
  "calculateData calm_state \<noteq> []
   \<and> r_balance (last (calculateData calm_state)) = Num 1000"
proof -
  have pr: "phase_rate calm_state 1 = 0"
    by (simp add: phase_rate_def calm_state_def)
  have "month_deposits calm_state 1 = (\<lambda>m. 0)"
    by (intro ext) (simp add: month_deposits_def calm_state_def)
  then have "run_year calm_state 1 (initial_vars calm_state)
        = \<lparr>currentBalance = Num 1000, totalGains = Num 0, yearDeposits = 0, yearReturns = Num 0\<rparr>"
    by (subst run_year_zero_rate [OF pr, of _ 1000 0])
       (simp_all add: initial_vars_def calm_state_def)
  moreover have "durationYears calm_state = 1" "reinvestGains calm_state"
    by (simp_all add: calm_state_def)
  ultimately show ?thesis
    by (simp add: calculateData_results_of year_result_def)
qed

lemma totalInvested_calm: "totalInvested calm_state = 1000"
  by (simp add: totalInvested_def calm_state_def)

text \<open>
  C5, as stated, fails in its effective rate. For a capital of 5000 doubled in one year the
  gains are 5000 and the tax 659; \<open>tax / gains \<sqdot> 100\<close> is 13.18 and the effective rate
  returned is the text \<^verbatim>\<open>13.2\<close>.
\<close>

theorem effective_rate_is_rounded_text:
  "taxInfo doubling_state
     = Inr \<lparr>ti_gains = Num 5000, ti_tax = Num 659, ti_afterTax = Num 9341,
            ti_inTodaysMoney = Num 9158, ti_effectiveRate = ''13.2''\<rparr>
   \<and> jmul (jdiv (Num 659) (Num 5000)) (Num 100) = Num 13.18"
  by (simp add: taxInfo_doubling)

section \<open>The engine over any arithmetic: the loops\<close>

lemma fold_year_body_ar:
  "fold (year_body_ar ar st) ys (v, rs)
   = (vars_after_ar ar st ys v, rs @ results_of_ar ar st ys v)"
  by (induction ys arbitrary: v rs) (simp_all add: year_body_ar_def Let_def)

lemma calculateData_ar_results_of:
  "calculateData_ar ar st = results_of_ar ar st [1..durationYears st] (initial_vars_ar ar st)"
  by (simp add: calculateData_ar_def fold_year_body_ar)

lemma length_results_of_ar: "length (results_of_ar ar st ys v) = length ys"
  by (induction ys arbitrary: v) simp_all

lemma vars_after_ar_append:
  "vars_after_ar ar st (ys @ zs) v = vars_after_ar ar st zs (vars_after_ar ar st ys v)"
  by (induction ys arbitrary: v) simp_all

lemma results_of_ar_append:
  "results_of_ar ar st (ys @ zs) v
   = results_of_ar ar st ys v @ results_of_ar ar st zs (vars_after_ar ar st ys v)"
  by (induction ys arbitrary: v) simp_all

lemma calculateData_ar_nth:
  assumes "1 \<le> y" "y \<le> durationYears st"
  shows "calculateData_ar ar st ! nat (y - 1)
         = year_result_ar ar st y
             (run_year_ar ar st y (vars_after_ar ar st [1..y - 1] (initial_vars_ar ar st)))"
proof -
  have split: "[1..durationYears st] = [1..y - 1] @ y # [y + 1..durationYears st]"
    using assms upto_split3 [of 1 y "durationYears st"] by simp
  have len: "length (results_of_ar ar st [1..y - 1] (initial_vars_ar ar st)) = nat (y - 1)"
    by (simp add: length_results_of_ar)
  show ?thesis
    unfolding calculateData_ar_results_of split results_of_ar_append
    using len by (simp add: nth_append)
qed

lemma fold_apply_transaction_ar:
  "fold (apply_transaction_ar ar st y m) ts v
   = v\<lparr>v_currentBalance :=
         foldl (ar_add ar) (v_currentBalance v)
           (map (\<lambda>t. ar_num ar (t_amount t)) (filter (applies st y m) ts)),
       v_yearDeposits :=
         foldl (ar_add ar) (v_yearDeposits v)
           (map (\<lambda>t. ar_num ar (t_amount t)) (filter (applies st y m) ts))\<rparr>"
proof (induction ts arbitrary: v)
  case Nil
  show ?case by simp
next
  case (Cons t ts)
  show ?case
  proof (cases "applies st y m t")
    case True
    then have "apply_transaction_ar ar st y m t v
        = v\<lparr>v_currentBalance := ar_add ar (v_currentBalance v) (ar_num ar (t_amount t)),
            v_yearDeposits := ar_add ar (v_yearDeposits v) (ar_num ar (t_amount t))\<rparr>"
      by (auto simp add: apply_transaction_ar_def applies_def)
    with True show ?thesis
      by (simp add: Cons.IH)
  next
    case False
    then have "apply_transaction_ar ar st y m t v = v"
      by (auto simp add: apply_transaction_ar_def applies_def)
    with False show ?thesis
      by (simp add: Cons.IH)
  qed
qed

lemma month_body_ar_eq:
  "month_body_ar ar st y r m v =
     (let b = foldl (ar_add ar) (v_currentBalance v) (amounts ar st y m);
          g = ar_mul ar b r
      in \<lparr>v_currentBalance = (if reinvestGains st then ar_add ar b g else b),
          v_totalGains = ar_add ar (v_totalGains v) g,
          v_yearDeposits = foldl (ar_add ar) (v_yearDeposits v) (amounts ar st y m),
          v_yearReturns = ar_add ar (v_yearReturns v) g\<rparr>)"
  by (simp add: month_body_ar_def fold_apply_transaction_ar amounts_def Let_def)

section \<open>The engine over any arithmetic: deposits\<close>






section \<open>The engine over any arithmetic: balance and gains\<close>

lemma run_months_append:
  "run_months ar st (xs @ ys) s = run_months ar st ys (run_months ar st xs s)"
  by (induction xs arbitrary: s) (simp_all add: Let_def)

lemma fold_months_run:
  "(v_currentBalance (fold (month_body_ar ar st k (monthlyRate_ar ar st k)) ms v),
    v_totalGains (fold (month_body_ar ar st k (monthlyRate_ar ar st k)) ms v))
   = run_months ar st (map (\<lambda>m. (k, m)) ms) (v_currentBalance v, v_totalGains v)"
  by (induction ms arbitrary: v) (simp_all add: month_body_ar_eq Let_def)

lemma run_year_ar_run:
  "(v_currentBalance (run_year_ar ar st k v), v_totalGains (run_year_ar ar st k v))
   = run_months ar st (map (\<lambda>m. (k, m)) [1..12]) (v_currentBalance v, v_totalGains v)"
  unfolding run_year_ar_def fold_months_run by simp

lemma vars_after_ar_run:
  "(v_currentBalance (vars_after_ar ar st ys v), v_totalGains (vars_after_ar ar st ys v))
   = run_months ar st (concat (map (\<lambda>k. map (\<lambda>m. (k, m)) [1..12]) ys))
       (v_currentBalance v, v_totalGains v)"
proof (induction ys arbitrary: v)
  case Nil
  show ?case by simp
next
  case (Cons k ys)
  show ?case
    by (simp add: Cons.IH run_months_append run_year_ar_run [symmetric])
qed

lemma run_months_principal:
  assumes "\<not> reinvestGains st"
  shows "fst (run_months ar st kms s)
         = foldl (ar_add ar) (fst s) (concat (map (\<lambda>km. amounts ar st (fst km) (snd km)) kms))"
  using assms by (induction kms arbitrary: s) (simp_all add: Let_def)

lemma amounts_months_upto:
  "concat (map (\<lambda>km. amounts ar st (fst km) (snd km))
               (concat (map (\<lambda>k. map (\<lambda>m. (k, m)) [1..12]) ys)))
   = concat (map (year_amounts ar st) ys)"
  by (induction ys) (simp_all add: year_amounts_def comp_def)

text \<open>
  C2. For every year \<open>y\<close> of the simulation and whatever the arithmetic, the balance
  recorded for \<open>y\<close> comes from the run over the months of the years 1 to \<open>y\<close> in which each
  month adds its transaction amounts to the balance, computes its gain from that balance
  and adds the gain to the accumulated gains, and, only when gains are reinvested, adds the
  gain to the balance at once, so that the next month computes its gain from a balance
  that holds it. With reinvestment, the recorded balance is that balance, rounded. Without,
  that balance is the principal, the initial capital changed by the transaction amounts
  alone, and the recorded balance is the rounded sum of the principal and the gains
  accumulated since year 1.
\<close>

theorem reinvest_policy:
  assumes "1 \<le> y" "y \<le> durationYears st"
  shows "y_balance (calculateData_ar ar st ! nat (y - 1))
         = ar_round ar
             (if reinvestGains st
              then fst (run_months ar st (months_upto y)
                          (ar_num ar (initialCapital st), ar_num ar 0))
              else ar_add ar
                     (fst (run_months ar st (months_upto y)
                             (ar_num ar (initialCapital st), ar_num ar 0)))
                     (snd (run_months ar st (months_upto y)
                             (ar_num ar (initialCapital st), ar_num ar 0))))
       \<and> (\<not> reinvestGains st \<longrightarrow>
            fst (run_months ar st (months_upto y) (ar_num ar (initialCapital st), ar_num ar 0))
            = principal_ar ar st y)"
proof -
  let ?V = "vars_after_ar ar st [1..y] (initial_vars_ar ar st)"
  let ?R = "run_months ar st (months_upto y) (ar_num ar (initialCapital st), ar_num ar 0)"
  have "[1..y] = [1..y - 1] @ [y]"
    using assms by (simp add: upto_rec2)
  then have "?V = run_year_ar ar st y (vars_after_ar ar st [1..y - 1] (initial_vars_ar ar st))"
    by (simp add: vars_after_ar_append)
  then have res: "calculateData_ar ar st ! nat (y - 1) = year_result_ar ar st y ?V"
    using assms by (simp add: calculateData_ar_nth)
  have "(v_currentBalance ?V, v_totalGains ?V) = ?R"
    unfolding vars_after_ar_run months_upto_def by (simp add: initial_vars_ar_def)
  then have vr: "v_currentBalance ?V = fst ?R" "v_totalGains ?V = snd ?R"
    by (simp_all add: prod_eq_iff)
  have bal: "y_balance (calculateData_ar ar st ! nat (y - 1))
         = ar_round ar (if reinvestGains st then fst ?R else ar_add ar (fst ?R) (snd ?R))"
    unfolding res by (simp add: year_result_ar_def vr)
  have pr: "\<not> reinvestGains st \<longrightarrow> fst ?R = principal_ar ar st y"
    by (simp add: run_months_principal months_upto_def amounts_months_upto principal_ar_def)
  from bal pr show ?thesis ..
qed

section \<open>The exact engine is the engine over the exact arithmetic\<close>

lemma exact_simps [simp]:
  "ar_num exact = Num" "ar_add exact = jadd" "ar_sub exact = jsub" "ar_mul exact = jmul"
  "ar_div exact = jdiv" "ar_pow exact b (Num y) = Math_pow b y" "ar_round exact = Math_round"
  "ar_max exact = Math_max" "ar_gt exact = jgt" "ar_toFixed exact = toFixed"
  by (simp_all add: exact_def)

lemma apply_transaction_exact:
  "apply_transaction_ar exact st y m t (exact_vars v) = exact_vars (apply_transaction st y m t v)"
  by (simp add: apply_transaction_ar_def apply_transaction_def exact_vars_def)

lemma fold_apply_transaction_exact:
  "fold (apply_transaction_ar exact st y m) ts (exact_vars v)
   = exact_vars (fold (apply_transaction st y m) ts v)"
  by (induction ts arbitrary: v) (simp_all add: apply_transaction_exact)

lemma month_body_exact:
  "month_body_ar exact st y r m (exact_vars v) = exact_vars (month_body st y r m v)"
  by (simp add: month_body_ar_def month_body_def fold_apply_transaction_exact Let_def)
     (simp add: exact_vars_def)

lemma fold_month_body_exact:
  "fold (month_body_ar exact st y r) ms (exact_vars v)
   = exact_vars (fold (month_body st y r) ms v)"
  by (induction ms arbitrary: v) (simp_all add: month_body_exact)

lemma monthlyRate_exact: "monthlyRate_ar exact st y = monthlyRate st y"
  by (simp add: monthlyRate_ar_def monthlyRate_def Let_def)

lemma run_year_exact:
  "run_year_ar exact st y (exact_vars v) = exact_vars (run_year st y v)"
proof -
  have "(exact_vars v)\<lparr>v_yearDeposits := Num 0, v_yearReturns := Num 0\<rparr>
        = exact_vars (v\<lparr>yearDeposits := 0, yearReturns := Num 0\<rparr>)"
    by (simp add: exact_vars_def)
  then show ?thesis
    by (simp add: run_year_ar_def run_year_def monthlyRate_exact fold_month_body_exact)
qed

lemma year_result_exact:
  "year_result_ar exact st y (exact_vars v) = exact_result (year_result st y v)"
  by (simp add: year_result_ar_def year_result_def exact_result_def exact_vars_def)

lemma results_of_exact:
  "results_of_ar exact st ys (exact_vars v) = map exact_result (results_of st ys v)"
  by (induction ys arbitrary: v) (simp_all add: run_year_exact year_result_exact)

lemma calculateData_exact: "calculateData_ar exact st = map exact_result (calculateData st)"
proof -
  have "initial_vars_ar exact st = exact_vars (initial_vars st)"
    by (simp add: initial_vars_ar_def initial_vars_def exact_vars_def)
  then show ?thesis
    by (simp add: calculateData_ar_results_of calculateData_results_of results_of_exact)
qed

lemma invested_exact:
  "ar_mul exact (ar_num exact (t_amount t))
     (if t_type t = ''monthly''
      then ar_mul exact
             (ar_add exact
                (ar_sub exact (ar_num exact (of_int (effectiveEnd st t)))
                              (ar_num exact (of_int (t_startYear t))))
                (ar_num exact 1))
             (ar_num exact 12)
      else ar_num exact 1)
   = Num (invested_amount st t)"
  by (simp add: invested_amount_def)

lemma fold_invested_exact:
  "fold (\<lambda>t acc. jadd acc (Num (invested_amount st t))) ts (Num a)
   = Num (a + sum_list (map (invested_amount st) ts))"
  by (induction ts arbitrary: a) (simp_all add: add.assoc)

lemma totalInvested_exact: "totalInvested_ar exact st = Num (totalInvested st)"
  unfolding totalInvested_ar_def invested_exact
  by (simp add: fold_invested_exact totalInvested_sum)

lemma taxInfo_exact:
  "taxInfo_ar exact st = (case taxInfo st of Inl e \<Rightarrow> Inl e | Inr r \<Rightarrow> Inr (exact_tax r))"
proof (cases "calculateData st = []")
  case True
  then show ?thesis
    by (simp add: taxInfo_ar_def taxInfo_def calculateData_exact)
next
  case False
  then have "y_balance (last (map exact_result (calculateData st)))
             = r_balance (last (calculateData st))"
    by (simp add: last_map exact_result_def)
  with False show ?thesis
    by (simp add: taxInfo_ar_def taxInfo_def calculateData_exact totalInvested_exact
        exact_tax_def Let_def)
qed

section \<open>Tax over any arithmetic\<close>

subsection \<open>Tax in an accurate arithmetic\<close>

lemma in_range_0 [simp]: "in_range 0"
  by (simp add: in_range_def)

lemma in_rangeI: "1 / 1000 \<le> \<bar>x\<bar> \<Longrightarrow> \<bar>x\<bar> \<le> 10000 \<Longrightarrow> in_range x"
proof -
  assume a: "1 / 1000 \<le> \<bar>x\<bar>" and b: "\<bar>x\<bar> \<le> 10000"
  have "(1::real) / 10 ^ 300 \<le> 1 / 10 ^ 3"
    by (intro divide_left_mono power_increasing) simp_all
  moreover have "(10000::real) = 10 ^ 4" by simp
  moreover have "(10::real) ^ 4 \<le> 10 ^ 300"
    by (intro power_increasing) simp_all
  ultimately show ?thesis
    using a b by (simp add: in_range_def)
qed

lemma small_error: "\<bar>z - e\<bar> \<le> \<bar>e\<bar> / 2 ^ 53 \<Longrightarrow> \<bar>e\<bar> \<le> 10000 \<Longrightarrow> \<bar>z - e\<bar> \<le> 1 / 100000000000" for z e :: real
proof -
  assume a: "\<bar>z - e\<bar> \<le> \<bar>e\<bar> / 2 ^ 53" and b: "\<bar>e\<bar> \<le> 10000"
  have "\<bar>e\<bar> / 2 ^ 53 \<le> 10000 / 2 ^ 53"
    using b by (simp add: divide_right_mono)
  also have "\<dots> \<le> (1::real) / 100000000000"
    by simp
  finally show ?thesis
    using a by linarith
qed

lemma acc_num:
  assumes "accurate ac" "1 / 1000 \<le> \<bar>x\<bar>" "\<bar>x\<bar> \<le> 10000"
  shows "\<exists>z. ar_num ac x = Num z \<and> \<bar>z - x\<bar> \<le> 1 / 100000000000"
proof -
  from assms(1) in_rangeI [OF assms(2,3)]
  obtain z where "ar_num ac x = Num z" "\<bar>z - x\<bar> \<le> \<bar>x\<bar> / 2 ^ 53"
    unfolding accurate_def by blast
  with small_error [of z x] assms(3) show ?thesis by blast
qed

lemma acc_num_0:
  assumes "accurate ac"
  shows "ar_num ac 0 = Num 0"
proof -
  from assms in_range_0 obtain z where "ar_num ac 0 = Num z" "\<bar>z - 0\<bar> \<le> \<bar>0::real\<bar> / 2 ^ 53"
    unfolding accurate_def by blast
  then show ?thesis by simp
qed

lemma acc_sub:
  assumes "accurate ac" "1 / 1000 \<le> \<bar>x - y\<bar>" "\<bar>x - y\<bar> \<le> 10000"
  shows "\<exists>z. ar_sub ac (Num x) (Num y) = Num z \<and> \<bar>z - (x - y)\<bar> \<le> 1 / 100000000000"
proof -
  from assms(1) in_rangeI [OF assms(2,3)]
  obtain z where "ar_sub ac (Num x) (Num y) = Num z" "\<bar>z - (x - y)\<bar> \<le> \<bar>x - y\<bar> / 2 ^ 53"
    unfolding accurate_def by blast
  with small_error [of z "x - y"] assms(3) show ?thesis by blast
qed

lemma acc_mul:
  assumes "accurate ac" "1 / 1000 \<le> \<bar>x * y\<bar>" "\<bar>x * y\<bar> \<le> 10000"
  shows "\<exists>z. ar_mul ac (Num x) (Num y) = Num z \<and> \<bar>z - x * y\<bar> \<le> 1 / 100000000000"
proof -
  from assms(1) in_rangeI [OF assms(2,3)]
  obtain z where "ar_mul ac (Num x) (Num y) = Num z" "\<bar>z - x * y\<bar> \<le> \<bar>x * y\<bar> / 2 ^ 53"
    unfolding accurate_def by blast
  with small_error [of z "x * y"] assms(3) show ?thesis by blast
qed

lemma acc_mul_0:
  assumes "accurate ac"
  shows "ar_mul ac (Num 0) (Num y) = Num 0"
proof -
  have "in_range (0 * y)" by simp
  with assms obtain z where "ar_mul ac (Num 0) (Num y) = Num z" "\<bar>z - 0 * y\<bar> \<le> \<bar>0 * y\<bar> / 2 ^ 53"
    unfolding accurate_def by blast
  then show ?thesis by simp
qed

lemma acc_max: "accurate ac \<Longrightarrow> ar_max ac (Num x) (Num y) = Num (max x y)"
  by (simp add: accurate_def)

lemma acc_round:
  "accurate ac \<Longrightarrow> \<bar>x\<bar> \<le> 10000 \<Longrightarrow> ar_round ac (Num x) = Num (of_int \<lfloor>x + 1 / 2\<rfloor>)"
proof -
  assume a: "accurate ac" and b: "\<bar>x\<bar> \<le> 10000"
  have "(10000::real) \<le> 2 ^ 52" by simp
  with b have "\<bar>x\<bar> \<le> 2 ^ 52" by linarith
  with a show ?thesis by (simp add: accurate_def)
qed

lemma acc_gt: "accurate ac \<Longrightarrow> ar_gt ac (Num x) (Num y) = (x > y)"
  by (simp add: accurate_def)

text \<open>The factor \<open>1 - 0.30\<close> and the two constants, as an accurate arithmetic has them.\<close>

lemma acc_factor:
  assumes "accurate ac"
  shows "\<exists>s. ar_sub ac (ar_num ac 1) (ar_num ac 0.30) = Num s \<and> \<bar>s - 7 / 10\<bar> \<le> 1 / 10000000000"
proof -
  from acc_num [OF assms, of 1] obtain a1 where
    a1: "ar_num ac 1 = Num a1" "\<bar>a1 - 1\<bar> \<le> 1 / 100000000000"
    by auto
  from acc_num [OF assms, of "0.30"] obtain a2 where
    a2: "ar_num ac 0.30 = Num a2" "\<bar>a2 - 3 / 10\<bar> \<le> 1 / 100000000000"
    by auto
  have e: "\<bar>(a1 - a2) - 7 / 10\<bar> \<le> 2 / 100000000000"
    using a1(2) a2(2) by linarith
  then have "1 / 1000 \<le> \<bar>a1 - a2\<bar>" "\<bar>a1 - a2\<bar> \<le> 10000"
    by linarith+
  from acc_sub [OF assms this] obtain s where
    s: "ar_sub ac (Num a1) (Num a2) = Num s" "\<bar>s - (a1 - a2)\<bar> \<le> 1 / 100000000000"
    by auto
  have "\<bar>s - 7 / 10\<bar> \<le> 1 / 10000000000"
    using e s(2) by linarith
  with s(1) show ?thesis
    unfolding a1(1) a2(1) by blast
qed

lemma acc_allowance:
  assumes "accurate ac"
  shows "\<exists>k. ar_num ac 1000 = Num k \<and> \<bar>k - 1000\<bar> \<le> 1 / 100000000000"
  using acc_num [OF assms, of 1000] by simp

lemma acc_rate:
  assumes "accurate ac"
  shows "\<exists>r. ar_num ac 0.26375 = Num r \<and> \<bar>r - 26375 / 100000\<bar> \<le> 1 / 100000000000"
  using acc_num [OF assms, of "0.26375"] by simp

lemma tax_of_5000:
  assumes "accurate ac"
  shows "ar_round ac
           (ar_mul ac
              (ar_max ac (ar_num ac 0)
                 (ar_sub ac (ar_mul ac (Num 5000) (ar_sub ac (ar_num ac 1) (ar_num ac 0.30)))
                            (ar_num ac 1000)))
              (ar_num ac 0.26375))
         = Num 659"
proof -
  from acc_factor [OF assms] obtain s where
    s: "ar_sub ac (ar_num ac 1) (ar_num ac 0.30) = Num s" "\<bar>s - 7 / 10\<bar> \<le> 1 / 10000000000"
    by auto
  from acc_allowance [OF assms] obtain k where
    k: "ar_num ac 1000 = Num k" "\<bar>k - 1000\<bar> \<le> 1 / 100000000000"
    by auto
  from acc_rate [OF assms] obtain r where
    r: "ar_num ac 0.26375 = Num r" "\<bar>r - 26375 / 100000\<bar> \<le> 1 / 100000000000"
    by auto
  have e1: "\<bar>5000 * s - 3500\<bar> \<le> 1 / 1000000"
    using s(2) by linarith
  then have "1 / 1000 \<le> \<bar>5000 * s\<bar>" "\<bar>5000 * s\<bar> \<le> 10000"
    by linarith+
  from acc_mul [OF assms this] obtain p where
    p: "ar_mul ac (Num 5000) (Num s) = Num p" "\<bar>p - 5000 * s\<bar> \<le> 1 / 100000000000"
    by auto
  have e2: "\<bar>(p - k) - 2500\<bar> \<le> 1 / 100000"
    using e1 p(2) k(2) by linarith
  then have "1 / 1000 \<le> \<bar>p - k\<bar>" "\<bar>p - k\<bar> \<le> 10000"
    by linarith+
  from acc_sub [OF assms this] obtain q where
    q: "ar_sub ac (Num p) (Num k) = Num q" "\<bar>q - (p - k)\<bar> \<le> 1 / 100000000000"
    by auto
  have q1: "24999 / 10 \<le> q" "q \<le> 25001 / 10"
    using e2 q(2) by linarith+
  have r1: "26374 / 100000 \<le> r" "r \<le> 26376 / 100000"
    using r(2) by linarith+
  have m: "ar_max ac (ar_num ac 0) (Num q) = Num q"
    using q1 by (simp add: acc_num_0 [OF assms] acc_max [OF assms])
  have "24999 / 10 * (26374 / 100000) \<le> q * r"
    using q1 r1 by (intro mult_mono) simp_all
  moreover have "q * r \<le> 25001 / 10 * (26376 / 100000)"
    using q1 r1 by (intro mult_mono) simp_all
  ultimately have e3: "6593 / 10 \<le> q * r" "q * r \<le> 65945 / 100"
    by simp_all
  then have "1 / 1000 \<le> \<bar>q * r\<bar>" "\<bar>q * r\<bar> \<le> 10000"
    by linarith+
  from acc_mul [OF assms this] obtain t where
    t: "ar_mul ac (Num q) (Num r) = Num t" "\<bar>t - q * r\<bar> \<le> 1 / 100000000000"
    by auto
  have t1: "6592 / 10 \<le> t" "t \<le> 65946 / 100"
    using e3 t(2) by linarith+
  then have "\<lfloor>t + 1 / 2\<rfloor> = 659"
    unfolding floor_eq_iff by simp
  moreover have "\<bar>t\<bar> \<le> 10000"
    using t1 by simp
  ultimately have "ar_round ac (Num t) = Num 659"
    by (simp add: acc_round [OF assms])
  then show ?thesis
    unfolding s(1) k(1) r(1) p(1) q(1) m t(1) .
qed

lemma tax_of_0:
  assumes "accurate ac"
  shows "ar_round ac
           (ar_mul ac
              (ar_max ac (ar_num ac 0)
                 (ar_sub ac (ar_mul ac (Num 0) (ar_sub ac (ar_num ac 1) (ar_num ac 0.30)))
                            (ar_num ac 1000)))
              (ar_num ac 0.26375))
         = Num 0"
proof -
  from acc_factor [OF assms] obtain s where
    s: "ar_sub ac (ar_num ac 1) (ar_num ac 0.30) = Num s"
    by auto
  from acc_allowance [OF assms] obtain k where
    k: "ar_num ac 1000 = Num k" "\<bar>k - 1000\<bar> \<le> 1 / 100000000000"
    by auto
  from acc_rate [OF assms] obtain r where
    r: "ar_num ac 0.26375 = Num r"
    by auto
  have "1 / 1000 \<le> \<bar>0 - k\<bar>" "\<bar>0 - k\<bar> \<le> 10000"
    using k(2) by linarith+
  from acc_sub [OF assms this] obtain q where
    q: "ar_sub ac (Num 0) (Num k) = Num q" "\<bar>q - (0 - k)\<bar> \<le> 1 / 100000000000"
    by auto
  have "q \<le> 0"
    using k(2) q(2) by linarith
  then have m: "ar_max ac (ar_num ac 0) (Num q) = Num 0"
    by (simp add: acc_num_0 [OF assms] acc_max [OF assms])
  have "ar_round ac (Num 0) = Num 0"
    using acc_round [OF assms, of 0] by simp
  then show ?thesis
    unfolding s k(1) r acc_mul_0 [OF assms] q(1) m .
qed

lemma accurate_exact: "accurate exact"
  by (simp add: accurate_def)

subsection \<open>The tax result\<close>

lemma length_calculateData_ar: "length (calculateData_ar ar st) = nat (durationYears st)"
  by (simp add: calculateData_ar_results_of length_results_of_ar)

lemma taxInfo_ar_eq:
  assumes "1 \<le> durationYears st"
  shows "taxInfo_ar ar st =
     (let finalBalance = y_balance (last (calculateData_ar ar st));
          gains = ar_max ar (ar_num ar 0) (ar_sub ar finalBalance (totalInvested_ar ar st));
          tax = ar_round ar
                  (ar_mul ar
                     (ar_max ar (ar_num ar 0)
                        (ar_sub ar (ar_mul ar gains (ar_sub ar (ar_num ar 1) (ar_num ar 0.30)))
                                   (ar_num ar 1000)))
                     (ar_num ar 0.26375))
      in Inr \<lparr>x_gains = gains, x_tax = tax, x_afterTax = ar_sub ar finalBalance tax,
              x_inTodaysMoney =
                ar_round ar
                  (ar_div ar (if ar_gt ar tax (ar_num ar 0) then ar_sub ar finalBalance tax
                              else finalBalance)
                     (ar_pow ar (ar_num ar 1.02) (ar_num ar (of_int (durationYears st))))),
              x_effectiveRate =
                (if ar_gt ar gains (ar_num ar 0)
                 then ar_toFixed ar 1 (ar_mul ar (ar_div ar tax gains) (ar_num ar 100))
                 else ''0.0'')\<rparr>)"
proof -
  have "length (calculateData_ar ar st) \<noteq> 0"
    using assms by (simp add: length_calculateData_ar)
  then have "calculateData_ar ar st \<noteq> []"
    by simp
  then show ?thesis
    unfolding taxInfo_ar_def Let_def by simp
qed

lemma taxInfo_ar_tax:
  assumes "taxInfo_ar ar st = Inr res"
  shows "x_tax res
         = ar_round ar
             (ar_mul ar
                (ar_max ar (ar_num ar 0)
                   (ar_sub ar (ar_mul ar (x_gains res) (ar_sub ar (ar_num ar 1) (ar_num ar 0.30)))
                              (ar_num ar 1000)))
                (ar_num ar 0.26375))
       \<and> x_effectiveRate res
         = (if ar_gt ar (x_gains res) (ar_num ar 0)
            then ar_toFixed ar 1 (ar_mul ar (ar_div ar (x_tax res) (x_gains res)) (ar_num ar 100))
            else ''0.0'')"
proof (cases "calculateData_ar ar st = []")
  case True
  with assms show ?thesis
    by (simp add: taxInfo_ar_def)
next
  case False
  with assms show ?thesis
    unfolding taxInfo_ar_def Let_def by auto
qed

text \<open>
  C5, amended. Whatever the arithmetic, for a duration of at least one year \<^verbatim>\<open>taxInfo\<close>
  returns a result with: gains \<^verbatim>\<open>Math.max(0, finalBalance - totalInvested)\<close>, the final
  balance being the balance recorded for the last year; tax
  \<^verbatim>\<open>Math.round(Math.max(0, gains * (1 - 0.30) - 1000) * 0.26375)\<close>; the balance after tax
  \<^verbatim>\<open>finalBalance - tax\<close>; the effective rate the text \<^verbatim>\<open>(tax / gains * 100).toFixed(1)\<close> when
  \<^verbatim>\<open>gains > 0\<close> and the text \<^verbatim>\<open>0.0\<close> otherwise. Every operation in these is the one of the
  arithmetic, with its rounding. In an accurate arithmetic, gains of 5000 give the tax 659,
  and gains of 0 give the tax 0 and the effective rate \<^verbatim>\<open>0.0\<close>.
\<close>

theorem tax_rule:
  assumes "1 \<le> durationYears st"
  shows "\<exists>res. taxInfo_ar ar st = Inr res
          \<and> x_gains res
              = ar_max ar (ar_num ar 0)
                  (ar_sub ar (y_balance (last (calculateData_ar ar st))) (totalInvested_ar ar st))
          \<and> x_tax res
              = ar_round ar
                  (ar_mul ar
                     (ar_max ar (ar_num ar 0)
                        (ar_sub ar
                           (ar_mul ar (x_gains res) (ar_sub ar (ar_num ar 1) (ar_num ar 0.30)))
                           (ar_num ar 1000)))
                     (ar_num ar 0.26375))
          \<and> x_afterTax res = ar_sub ar (y_balance (last (calculateData_ar ar st))) (x_tax res)
          \<and> x_effectiveRate res
              = (if ar_gt ar (x_gains res) (ar_num ar 0)
                 then ar_toFixed ar 1
                        (ar_mul ar (ar_div ar (x_tax res) (x_gains res)) (ar_num ar 100))
                 else ''0.0'')
          \<and> (\<forall>ac res'. accurate ac \<and> taxInfo_ar ac st = Inr res' \<and> x_gains res' = Num 5000
                \<longrightarrow> x_tax res' = Num 659)
          \<and> (\<forall>ac res'. accurate ac \<and> taxInfo_ar ac st = Inr res' \<and> x_gains res' = Num 0
                \<longrightarrow> x_tax res' = Num 0 \<and> x_effectiveRate res' = ''0.0'')"
proof -
  have a: "x_tax res' = Num 659"
    if "accurate ac \<and> taxInfo_ar ac st = Inr res' \<and> x_gains res' = Num 5000" for ac res'
    using that taxInfo_ar_tax [of ac st res'] tax_of_5000 [of ac] by simp
  have b: "x_tax res' = Num 0 \<and> x_effectiveRate res' = ''0.0''"
    if "accurate ac \<and> taxInfo_ar ac st = Inr res' \<and> x_gains res' = Num 0" for ac res'
  proof -
    from that have ac: "accurate ac" and g: "x_gains res' = Num 0"
      and t: "taxInfo_ar ac st = Inr res'"
      by simp_all
    have "\<not> ar_gt ac (Num 0) (ar_num ac 0)"
      by (simp add: acc_num_0 [OF ac] acc_gt [OF ac])
    with taxInfo_ar_tax [OF t] tax_of_0 [OF ac] g show ?thesis
      by simp
  qed
  have c: "\<exists>res. taxInfo_ar ar st = Inr res
          \<and> x_gains res
              = ar_max ar (ar_num ar 0)
                  (ar_sub ar (y_balance (last (calculateData_ar ar st))) (totalInvested_ar ar st))
          \<and> x_tax res
              = ar_round ar
                  (ar_mul ar
                     (ar_max ar (ar_num ar 0)
                        (ar_sub ar
                           (ar_mul ar (x_gains res) (ar_sub ar (ar_num ar 1) (ar_num ar 0.30)))
                           (ar_num ar 1000)))
                     (ar_num ar 0.26375))
          \<and> x_afterTax res = ar_sub ar (y_balance (last (calculateData_ar ar st))) (x_tax res)
          \<and> x_effectiveRate res
              = (if ar_gt ar (x_gains res) (ar_num ar 0)
                 then ar_toFixed ar 1
                        (ar_mul ar (ar_div ar (x_tax res) (x_gains res)) (ar_num ar 100))
                 else ''0.0'')"
    unfolding taxInfo_ar_eq [OF assms] Let_def by simp
  from a b c show ?thesis
    by blast
qed

section \<open>Rounding to binary64\<close>

lemma round_even_error: "\<bar>of_int (round_even q) - q\<bar> \<le> 1 / 2"
proof -
  have "of_int \<lfloor>q\<rfloor> \<le> q" "q < of_int \<lfloor>q\<rfloor> + 1"
    by linarith+
  then show ?thesis
    unfolding round_even_def Let_def by (auto simp add: abs_le_iff)
qed

lemma rnd_0 [simp]: "rnd 0 = 0"
  by (simp add: rnd_def)

lemma rnd_error: "\<bar>rnd x - x\<bar> \<le> \<bar>x\<bar> / 2 ^ 53"
proof (cases "x = 0")
  case True
  then show ?thesis by simp
next
  case False
  define e where "e = \<lfloor>log 2 \<bar>x\<bar>\<rfloor>"
  define u :: real where "u = 2 powr of_int (e - 52)"
  have u: "0 < u"
    by (simp add: u_def)
  have r: "rnd x = of_int (round_even (x / u)) * u"
    using False by (simp add: rnd_def u_def e_def Let_def)
  have "rnd x - x = (of_int (round_even (x / u)) - x / u) * u"
    using u by (simp add: r algebra_simps)
  then have "\<bar>rnd x - x\<bar> = \<bar>of_int (round_even (x / u)) - x / u\<bar> * u"
    using u by (simp add: abs_mult)
  also have "\<dots> \<le> 1 / 2 * u"
    using round_even_error [of "x / u"] u by (intro mult_right_mono) simp_all
  finally have a: "\<bar>rnd x - x\<bar> \<le> u / 2"
    by simp
  have "of_int e \<le> log 2 \<bar>x\<bar>"
    by (simp add: e_def)
  then have "2 powr of_int e \<le> 2 powr log 2 \<bar>x\<bar>"
    by simp
  then have b: "2 powr of_int e \<le> \<bar>x\<bar>"
    using False by simp
  have "u = 2 powr of_int e / 2 ^ 52"
    by (simp add: u_def powr_diff)
  then have "u / 2 = 2 powr of_int e / 2 ^ 53"
    by simp
  also have "\<dots> \<le> \<bar>x\<bar> / 2 ^ 53"
    using b by (simp add: divide_right_mono)
  finally show ?thesis
    using a by linarith
qed

lemma rnd_scaled:
  assumes "2 ^ 52 \<le> \<bar>x\<bar> * 2 ^ k" "\<bar>x\<bar> * 2 ^ k < 2 ^ 53"
  shows "rnd x = of_int (round_even (x * 2 ^ k)) / 2 ^ k"
proof -
  have x: "x \<noteq> 0"
    using assms(1) by auto
  have p: "(2::real) powr (52 - of_nat k) = 2 ^ 52 / 2 ^ k"
    by (simp add: powr_diff powr_realpow)
  have q: "(2::real) powr (52 - of_nat k + 1) = 2 ^ 53 / 2 ^ k"
    by (simp add: powr_diff powr_add powr_realpow)
  have "(2::real) ^ 52 / 2 ^ k \<le> \<bar>x\<bar>" "\<bar>x\<bar> < 2 ^ 53 / 2 ^ k"
    using assms by (simp_all add: field_simps)
  then have "2 powr of_int (52 - int k) \<le> \<bar>x\<bar>" "\<bar>x\<bar> < 2 powr of_int (52 - int k + 1)"
    using p q by simp_all
  then have "\<lfloor>log 2 \<bar>x\<bar>\<rfloor> = 52 - int k"
    using x by (subst floor_log_eq_powr_iff) simp_all
  then have "(2::real) powr of_int (\<lfloor>log 2 \<bar>x\<bar>\<rfloor> - 52) = 2 powr (- of_nat k)"
    by simp
  also have "\<dots> = (1::real) / 2 ^ k"
    by (simp add: powr_minus powr_realpow inverse_eq_divide)
  finally have "2 powr of_int (\<lfloor>log 2 \<bar>x\<bar>\<rfloor> - 52) = (1::real) / 2 ^ k" .
  then show ?thesis
    using x by (simp add: rnd_def Let_def)
qed

lemma binary64_simps [simp]:
  "ar_num binary64 x = Num (rnd x)" "ar_add binary64 a b = jrnd (jadd a b)"
  "ar_sub binary64 a b = jrnd (jsub a b)" "ar_mul binary64 a b = jrnd (jmul a b)"
  "ar_div binary64 a b = jrnd (jdiv a b)" "ar_pow binary64 c (Num y) = jrnd (Math_pow c y)"
  "ar_round binary64 = Math_round" "ar_max binary64 = Math_max" "ar_gt binary64 = jgt"
  "ar_toFixed binary64 = toFixed"
  by (simp_all add: binary64_def)

lemma accurate_binary64: "accurate binary64"
proof -
  have "\<bar>rnd x - x\<bar> * 9007199254740992 \<le> \<bar>x\<bar>" for x
    using rnd_error [of x] by simp
  then show ?thesis
    by (simp add: accurate_def)
qed

lemma round_even_of_int [simp]: "round_even (of_int m) = m"
  by (simp add: round_even_def)

lemma rnd_of_int:
  assumes "\<bar>n\<bar> < 2 ^ 53"
  shows "rnd (of_int n) = of_int n"
proof (cases "n = 0")
  case True
  then show ?thesis by simp
next
  case False
  define x :: real where "x = \<bar>of_int n\<bar>"
  define e where "e = \<lfloor>log 2 x\<rfloor>"
  have x1: "1 \<le> x"
    using False by (simp add: x_def)
  have x2: "x < 2 ^ 53"
  proof -
    have "real_of_int \<bar>n\<bar> < real_of_int (2 ^ 53)"
      using assms by (simp only: of_int_less_iff)
    then show ?thesis
      by (simp add: x_def)
  qed
  have "0 \<le> log 2 x"
    using x1 by simp
  then have e0: "0 \<le> e"
    by (simp add: e_def)
  have p: "2 powr of_int e \<le> x" "x < 2 powr of_int (e + 1)"
    using x1 floor_log_eq_powr_iff [of x 2 e] by (simp_all add: e_def)
  have "(2::real) ^ 53 = 2 powr 53"
    by (simp only: powr_numeral)
  with p(1) x2 have "(2::real) powr of_int e < 2 powr 53"
    by linarith
  then have "real_of_int e < 53"
    by (rule powr_less_cancel) simp
  then have e1: "e < 53"
    by linarith
  from p have b: "2 ^ nat e \<le> x" "x < 2 ^ nat (e + 1)"
    using e0 by (simp_all add: powr_realpow [symmetric])
  define k where "k = nat (52 - e)"
  have ke: "nat e + k = 52" "nat (e + 1) + k = 53"
    using e0 e1 by (simp_all add: k_def)
  have "(2::real) ^ nat e * 2 ^ k \<le> x * 2 ^ k"
    using b(1) by (intro mult_right_mono) simp_all
  then have c: "2 ^ 52 \<le> x * 2 ^ k"
    by (simp add: power_add [symmetric] ke)
  have "x * 2 ^ k < (2::real) ^ nat (e + 1) * 2 ^ k"
    using b(2) by (intro mult_strict_right_mono) simp_all
  then have d: "x * 2 ^ k < 2 ^ 53"
    by (simp add: power_add [symmetric] ke)
  have "real_of_int n * 2 ^ k = of_int (n * 2 ^ k)"
    by simp
  then have "round_even (real_of_int n * 2 ^ k) = n * 2 ^ k"
    by (simp only: round_even_of_int)
  with rnd_scaled [of "of_int n" k] c d show ?thesis
    by (simp add: x_def)
qed

lemma rnd_numeral [simp]: "numeral w < (2::int) ^ 53 \<Longrightarrow> rnd (numeral w) = numeral w"
  using rnd_of_int [of "numeral w"] by simp

lemma rnd_neg_numeral [simp]:
  "numeral w < (2::int) ^ 53 \<Longrightarrow> rnd (- numeral w) = - numeral w"
  using rnd_of_int [of "- numeral w"] by simp

lemma rnd_1 [simp]: "rnd 1 = 1"
  using rnd_of_int [of 1] by simp

lemma rnd_values:
  "rnd (1 / 12) = 6004799503160661 / 72057594037927936"
  "rnd (659 / 5000) = 4748595447099451 / 36028797018963968"
  "rnd (349 / 2000) = 1571756269952303 / 9007199254740992"
  "rnd (107 / 600) = 1606283867095477 / 9007199254740992"
  "rnd (211 / 800) = 4751297606875873 / 18014398509481984"
  "rnd (3 / 10) = 5404319552844595 / 18014398509481984"
  "rnd (12610078956637389 / 18014398509481984) = 3152519739159347 / 4503599627370496"
  "rnd (118714886177486275 / 9007199254740992) = 1854920096523223 / 140737488355328"
  "rnd (39293906748807575 / 2251799813685248) = 4911738343600947 / 281474976710656"
  "rnd (40157096677386925 / 2251799813685248) = 2509818542336683 / 140737488355328"
  "rnd (1003 / 10) = 7057985041019699 / 70368744177664"
  "rnd (3001 / 10) = 2639707515964621 / 8796093022208"
  "rnd (2639707515964621 / 8796093022208) = 2639707515964621 / 8796093022208"
  "rnd (28175645168736667 / 70368744177664) = 7043911292184167 / 17592186044416"
  "rnd (2969561004297420625 / 4503599627370496) = 5275 / 8"
  "rnd (12323326324113409 / 17592186044416) = 1401 / 2"
  "rnd (8801370678021325 / 8796093022208) = 8801370678021325 / 8796093022208"
  "rnd (5720539096992973 / 4398046511104) = 5720539096992973 / 4398046511104"
  "rnd (14080785709950567 / 8796093022208) = 1760098213743821 / 1099511627776"
  "rnd (16720493225915189 / 8796093022208) = 4180123306478797 / 2199023255552"
  "rnd (19360200741879809 / 8796093022208) = 2201"
  "rnd (21999908257844429 / 8796093022208) = 5499977064461107 / 2199023255552"
  "rnd (24639615773809049 / 8796093022208) = 3079951971726131 / 1099511627776"
  "rnd (27279323289773669 / 8796093022208) = 6819830822443417 / 2199023255552"
  "rnd (29919030805738289 / 8796093022208) = 1869939425358643 / 549755813888"
  "rnd (1970324836974591875 / 562949953421312) = 3500"
  "rnd (8139684580425727 / 2199023255552) = 8139684580425727 / 2199023255552"
  "rnd (32558738321702909 / 8796093022208) = 8139684580425727 / 2199023255552"
  "rnd (5107644927391563475 / 1125899906842624) = 9073 / 2"
  "rnd (37091159457068556859400837104927 / 4951760157141521099596496896)
   = 4117945923928063 / 549755813888"
  "rnd (5122844576133938875 / 281474976710656) = 18200"
  "rnd (7806532557209599 / 274877906944) = 7806532557209599 / 274877906944"
  "rnd (8275364315293285875 / 281474976710656) = 8081410464153599 / 274877906944"
proof -
  show "rnd (1 / 12) = 6004799503160661 / 72057594037927936"
    by (subst rnd_scaled [where k = 56]) (simp_all add: round_even_def Let_def)
  show "rnd (659 / 5000) = 4748595447099451 / 36028797018963968"
    by (subst rnd_scaled [where k = 55]) (simp_all add: round_even_def Let_def)
  show "rnd (349 / 2000) = 1571756269952303 / 9007199254740992"
    by (subst rnd_scaled [where k = 55]) (simp_all add: round_even_def Let_def)
  show "rnd (107 / 600) = 1606283867095477 / 9007199254740992"
    by (subst rnd_scaled [where k = 55]) (simp_all add: round_even_def Let_def)
  show "rnd (211 / 800) = 4751297606875873 / 18014398509481984"
    by (subst rnd_scaled [where k = 54]) (simp_all add: round_even_def Let_def)
  show "rnd (3 / 10) = 5404319552844595 / 18014398509481984"
    by (subst rnd_scaled [where k = 54]) (simp_all add: round_even_def Let_def)
  show "rnd (12610078956637389 / 18014398509481984) = 3152519739159347 / 4503599627370496"
    by (subst rnd_scaled [where k = 53]) (simp_all add: round_even_def Let_def)
  show "rnd (118714886177486275 / 9007199254740992) = 1854920096523223 / 140737488355328"
    by (subst rnd_scaled [where k = 49]) (simp_all add: round_even_def Let_def)
  show "rnd (39293906748807575 / 2251799813685248) = 4911738343600947 / 281474976710656"
    by (subst rnd_scaled [where k = 48]) (simp_all add: round_even_def Let_def)
  show "rnd (40157096677386925 / 2251799813685248) = 2509818542336683 / 140737488355328"
    by (subst rnd_scaled [where k = 48]) (simp_all add: round_even_def Let_def)
  show "rnd (1003 / 10) = 7057985041019699 / 70368744177664"
    by (subst rnd_scaled [where k = 46]) (simp_all add: round_even_def Let_def)
  show "rnd (3001 / 10) = 2639707515964621 / 8796093022208"
    by (subst rnd_scaled [where k = 44]) (simp_all add: round_even_def Let_def)
  show "rnd (2639707515964621 / 8796093022208) = 2639707515964621 / 8796093022208"
    by (subst rnd_scaled [where k = 44]) (simp_all add: round_even_def Let_def)
  show "rnd (28175645168736667 / 70368744177664) = 7043911292184167 / 17592186044416"
    by (subst rnd_scaled [where k = 44]) (simp_all add: round_even_def Let_def)
  show "rnd (2969561004297420625 / 4503599627370496) = 5275 / 8"
    by (subst rnd_scaled [where k = 43]) (simp_all add: round_even_def Let_def)
  show "rnd (12323326324113409 / 17592186044416) = 1401 / 2"
    by (subst rnd_scaled [where k = 43]) (simp_all add: round_even_def Let_def)
  show "rnd (8801370678021325 / 8796093022208) = 8801370678021325 / 8796093022208"
    by (subst rnd_scaled [where k = 43]) (simp_all add: round_even_def Let_def)
  show "rnd (5720539096992973 / 4398046511104) = 5720539096992973 / 4398046511104"
    by (subst rnd_scaled [where k = 42]) (simp_all add: round_even_def Let_def)
  show "rnd (14080785709950567 / 8796093022208) = 1760098213743821 / 1099511627776"
    by (subst rnd_scaled [where k = 42]) (simp_all add: round_even_def Let_def)
  show "rnd (16720493225915189 / 8796093022208) = 4180123306478797 / 2199023255552"
    by (subst rnd_scaled [where k = 42]) (simp_all add: round_even_def Let_def)
  show "rnd (19360200741879809 / 8796093022208) = 2201"
    by (subst rnd_scaled [where k = 41]) (simp_all add: round_even_def Let_def)
  show "rnd (21999908257844429 / 8796093022208) = 5499977064461107 / 2199023255552"
    by (subst rnd_scaled [where k = 41]) (simp_all add: round_even_def Let_def)
  show "rnd (24639615773809049 / 8796093022208) = 3079951971726131 / 1099511627776"
    by (subst rnd_scaled [where k = 41]) (simp_all add: round_even_def Let_def)
  show "rnd (27279323289773669 / 8796093022208) = 6819830822443417 / 2199023255552"
    by (subst rnd_scaled [where k = 41]) (simp_all add: round_even_def Let_def)
  show "rnd (29919030805738289 / 8796093022208) = 1869939425358643 / 549755813888"
    by (subst rnd_scaled [where k = 41]) (simp_all add: round_even_def Let_def)
  show "rnd (1970324836974591875 / 562949953421312) = 3500"
    by (subst rnd_scaled [where k = 41]) (simp_all add: round_even_def Let_def)
  show "rnd (8139684580425727 / 2199023255552) = 8139684580425727 / 2199023255552"
    by (subst rnd_scaled [where k = 41]) (simp_all add: round_even_def Let_def)
  show "rnd (32558738321702909 / 8796093022208) = 8139684580425727 / 2199023255552"
    by (subst rnd_scaled [where k = 41]) (simp_all add: round_even_def Let_def)
  show "rnd (5107644927391563475 / 1125899906842624) = 9073 / 2"
    by (subst rnd_scaled [where k = 40]) (simp_all add: round_even_def Let_def)
  show "rnd (37091159457068556859400837104927 / 4951760157141521099596496896)
        = 4117945923928063 / 549755813888"
    by (subst rnd_scaled [where k = 40]) (simp_all add: round_even_def Let_def)
  show "rnd (5122844576133938875 / 281474976710656) = 18200"
    by (subst rnd_scaled [where k = 38]) (simp_all add: round_even_def Let_def)
  show "rnd (7806532557209599 / 274877906944) = 7806532557209599 / 274877906944"
    by (subst rnd_scaled [where k = 38]) (simp_all add: round_even_def Let_def)
  show "rnd (8275364315293285875 / 281474976710656) = 8081410464153599 / 274877906944"
    by (subst rnd_scaled [where k = 38]) (simp_all add: round_even_def Let_def)
qed

section \<open>Examples\<close>

subsection \<open>A rate of 100 % without reinvestment\<close>

lemma run_months_plain:
  "run_months exact plain_state (months_upto 1) (Num 1000, Num 0)
   = (Num 2200, Num (19800 * (2 powr (1 / 12) - 1)))"
proof -
  have r: "monthlyRate_ar exact plain_state 1 = Num (2 powr (1 / 12) - 1)"
    by (simp add: monthlyRate_exact monthlyRate_def phase_rate_def plain_state_def Math_pow_def)
  have a: "amounts exact plain_state 1 m = [Num 100]" for m
    by (simp add: amounts_def applies_def isActive_def effectiveEnd_def plain_state_def)
  have n: "\<not> reinvestGains plain_state"
    by (simp add: plain_state_def)
  have "months_upto 1 = map (\<lambda>m. (1, m)) [1, 2, 3, 4, 5, 6, 7, 8, 9, 10, 11, 12]"
    by (simp add: months_upto_def months)
  then show ?thesis
    by (simp add: r a n Let_def algebra_simps)
qed

lemma twelfth_root_two_bounds:
  "(1059463 / 1000000 :: real) < 2 powr (1 / 12) \<and> 2 powr (1 / 12) < (1059464 / 1000000 :: real)"
proof -
  let ?q = "2 powr (1 / 12) :: real"
  have "(1059463 / 1000000 :: real) ^ 12 < ?q ^ 12"
    unfolding twelfth_root_two by (simp add: power_divide)
  then have lo: "(1059463 / 1000000 :: real) < ?q"
    by (rule power_less_imp_less_base) simp
  have "?q ^ 12 < (1059464 / 1000000 :: real) ^ 12"
    unfolding twelfth_root_two by (simp add: power_divide)
  then have hi: "?q < (1059464 / 1000000 :: real)"
    by (rule power_less_imp_less_base) simp
  from lo hi show ?thesis ..
qed

lemma round_plain: "Math_round (jadd (Num 2200) (Num (19800 * (2 powr (1 / 12) - 1)))) = Num 3377"
proof -
  define q :: real where "q = 2 powr (1 / 12)"
  from twelfth_root_two_bounds
  have "(1059463 / 1000000 :: real) < q" "q < (1059464 / 1000000 :: real)"
    by (simp_all add: q_def)
  then have "33765 / 10 \<le> 2200 + 19800 * (q - 1)" "2200 + 19800 * (q - 1) < 33775 / 10"
    by simp_all
  then have "\<lfloor>2200 + 19800 * (q - 1) + 1 / 2\<rfloor> = 3377"
    unfolding floor_eq_iff by simp
  then show ?thesis
    unfolding q_def by simp
qed

lemma calculateData_ar_doubling:
  "y_balance (calculateData_ar exact doubling_state ! 0) = Num 10000"
proof -
  have "length (calculateData doubling_state) = 1"
    by (simp add: calculateData_results_of length_results_of doubling_state_def)
  then obtain r where r: "calculateData doubling_state = [r]"
    by (cases "calculateData doubling_state") simp_all
  with calculateData_doubling have "r_balance r = Num 10000"
    by simp
  with r show ?thesis
    by (simp add: calculateData_exact exact_result_def)
qed

subsection \<open>Years without a yield phase\<close>

lemma monthlyRate_binary64_zero:
  assumes "phase_rate st y = 0"
  shows "monthlyRate_ar binary64 st y = Num 0"
  using assms by (simp add: monthlyRate_ar_def Let_def rnd_values Math_pow_def)

lemma monthlyRate_exact_zero:
  assumes "phase_rate st y = 0"
  shows "monthlyRate_ar exact st y = Num 0"
  using assms by (simp add: monthlyRate_exact monthlyRate_def Math_pow_def)

subsection \<open>Twelve deposits of 300.10 and one of 100.30\<close>

lemma phase_rate_tie: "phase_rate tie_state 1 = 0"
  by (simp add: phase_rate_def tie_state_def)

lemma amounts_tie:
  "amounts binary64 tie_state 1 m
   = (if m = 1
      then [Num (2639707515964621 / 8796093022208), Num (7057985041019699 / 70368744177664)]
      else [Num (2639707515964621 / 8796093022208)])"
  by (simp add: amounts_def applies_def isActive_def effectiveEnd_def tie_state_def rnd_values)

lemma amounts_tie_exact:
  "amounts exact tie_state 1 m
   = (if m = 1 then [Num (3001 / 10), Num (1003 / 10)] else [Num (3001 / 10)])"
  by (simp add: amounts_def applies_def isActive_def effectiveEnd_def tie_state_def)




lemma months_upto_1:
  "months_upto 1 = map (\<lambda>m. (1, m)) [1, 2, 3, 4, 5, 6, 7, 8, 9, 10, 11, 12]"
  by (simp add: months_upto_def months)

lemma run_months_tie:
  "run_months binary64 tie_state (months_upto 1) (Num 0, Num 0)
   = (Num (8139684580425727 / 2199023255552), Num 0)"
proof -
  have n: "\<not> reinvestGains tie_state"
    by (simp add: tie_state_def)
  show ?thesis
    unfolding months_upto_1
    by (simp add: monthlyRate_binary64_zero [OF phase_rate_tie] amounts_tie n Let_def rnd_values)
qed

lemma run_months_tie_exact:
  "run_months exact tie_state (months_upto 1) (Num 0, Num 0) = (Num (7403 / 2), Num 0)"
proof -
  have n: "\<not> reinvestGains tie_state"
    by (simp add: tie_state_def)
  show ?thesis
    unfolding months_upto_1
    by (simp add: monthlyRate_exact_zero [OF phase_rate_tie] amounts_tie_exact n Let_def)
qed

lemma round_tie:
  "Math_round (Num (8139684580425727 / 2199023255552)) = Num 3701"
  "Math_round (Num (7403 / 2)) = Num 3702"
  by simp_all

subsection \<open>A withdrawal after the last year\<close>

lemma phase_rate_withdrawn: "phase_rate (withdrawn g) 1 = 0"
  by (simp add: phase_rate_def withdrawn_def)

lemma balance_withdrawn:
  assumes "ar = binary64 \<or> ar = exact"
  shows "y_balance (last (calculateData_ar ar (withdrawn g))) = Num 50000"
proof -
  have d: "durationYears (withdrawn g) = 1" and r: "reinvestGains (withdrawn g)"
    and c: "initialCapital (withdrawn g) = 50000"
    by (simp_all add: withdrawn_def)
  have a: "amounts ar (withdrawn g) 1 m = []" for m
    by (simp add: amounts_def applies_def isActive_def withdrawn_def)
  have mr: "monthlyRate_ar ar (withdrawn g) 1 = Num 0"
    using assms monthlyRate_binary64_zero [OF phase_rate_withdrawn]
      monthlyRate_exact_zero [OF phase_rate_withdrawn] by blast
  have "v_currentBalance (run_year_ar ar (withdrawn g) 1 (initial_vars_ar ar (withdrawn g)))
        = Num 50000"
    unfolding run_year_ar_def months
    using assms by (auto simp add: month_body_ar_eq mr a r c Let_def initial_vars_ar_def)
  moreover have "ar_round ar (Num 50000) = Num 50000"
    using assms by auto
  ultimately show ?thesis
    by (simp add: calculateData_ar_results_of d year_result_ar_def r)
qed

lemma totalInvested_withdrawn:
  "totalInvested_ar binary64 (withdrawn 5000) = Num 45000"
  "totalInvested_ar binary64 (withdrawn 26000) = Num 24000"
  "totalInvested_ar binary64 (withdrawn 42000) = Num 8000"
  "totalInvested_ar exact (withdrawn 26000) = Num 24000"
  "totalInvested_ar exact (withdrawn 42000) = Num 8000"
  by (simp_all add: totalInvested_ar_def withdrawn_def)

lemma toFixed_tie:
  "toFixed 1 (Num (4911738343600947 / 281474976710656)) = ''17.4''"
  "toFixed 1 (Num (349 / 20)) = ''17.5''"
  "toFixed 1 (Num (2509818542336683 / 140737488355328)) = ''17.8''"
  by (simp_all add: toFixed_def Let_def string_of_nat.simps digit_char_def)

subsection \<open>The statements at the examples\<close>

text \<open>
  A capital of 1000 and a savings plan of 100 a month at 100 % for one year, without
  reinvestment, in exact numbers: the principal is 2200 and the gains accumulated are
  \<open>19800 \<sqdot> (2\<^bsup>1/12\<^esup> - 1)\<close>, about 1177.38; the balance recorded is 3377. A capital of 5000 at
  100 % with reinvestment: the balance of the run is recorded as 10000. Twelve deposits of
  300.10 and one of 100.30 without any phase and without reinvestment: in \<open>binary64\<close> the
  principal is \<open>8139684580425727 / 2\<^sup>4\<^sup>1\<close>, just below 3701.5, and the balance recorded is
  3701; in exact numbers the principal is 3701.5 and the balance recorded is 3702.
\<close>

theorem reinvest_policy_witness:
  "\<not> reinvestGains plain_state
   \<and> principal_ar exact plain_state 1 = Num 2200
   \<and> run_months exact plain_state (months_upto 1) (Num 1000, Num 0)
       = (Num 2200, Num (19800 * (2 powr (1 / 12) - 1)))
   \<and> y_balance (calculateData_ar exact plain_state ! 0) = Num 3377
   \<and> reinvestGains doubling_state
   \<and> Math_round (fst (run_months exact doubling_state (months_upto 1) (Num 5000, Num 0)))
       = Num 10000
   \<and> \<not> reinvestGains tie_state
   \<and> principal_ar binary64 tie_state 1 = Num (8139684580425727 / 2199023255552)
   \<and> y_balance (calculateData_ar binary64 tie_state ! 0) = Num 3701
   \<and> principal_ar exact tie_state 1 = Num (7403 / 2)
   \<and> y_balance (calculateData_ar exact tie_state ! 0) = Num 3702"
proof -
  have n: "\<not> reinvestGains plain_state" and c: "initialCapital plain_state = 1000"
    by (simp_all add: plain_state_def)
  have "(1::int) \<le> 1" "1 \<le> durationYears plain_state"
    by (simp_all add: plain_state_def)
  from reinvest_policy [OF this, of exact] n
  have "y_balance (calculateData_ar exact plain_state ! 0)
          = Math_round (jadd (fst (run_months exact plain_state (months_upto 1) (Num 1000, Num 0)))
                             (snd (run_months exact plain_state (months_upto 1) (Num 1000, Num 0))))
        \<and> fst (run_months exact plain_state (months_upto 1) (Num 1000, Num 0))
          = principal_ar exact plain_state 1"
    by (simp add: c)
  then have a: "y_balance (calculateData_ar exact plain_state ! 0) = Num 3377"
    and b: "principal_ar exact plain_state 1 = Num 2200"
    unfolding run_months_plain fst_conv snd_conv round_plain by simp_all
  have r: "reinvestGains doubling_state" and c': "initialCapital doubling_state = 5000"
    by (simp_all add: doubling_state_def)
  have "(1::int) \<le> 1" "1 \<le> durationYears doubling_state"
    by (simp_all add: doubling_state_def)
  from reinvest_policy [OF this, of exact] r
  have d: "Math_round (fst (run_months exact doubling_state (months_upto 1) (Num 5000, Num 0)))
           = Num 10000"
    by (simp add: c' calculateData_ar_doubling)
  have nt: "\<not> reinvestGains tie_state" and ct: "initialCapital tie_state = 0"
    by (simp_all add: tie_state_def)
  have y: "(1::int) \<le> 1" "1 \<le> durationYears tie_state"
    by (simp_all add: tie_state_def)
  from reinvest_policy [OF y, of binary64] nt
  have "y_balance (calculateData_ar binary64 tie_state ! 0)
          = Math_round
              (jrnd (jadd (fst (run_months binary64 tie_state (months_upto 1) (Num 0, Num 0)))
                          (snd (run_months binary64 tie_state (months_upto 1) (Num 0, Num 0)))))
        \<and> fst (run_months binary64 tie_state (months_upto 1) (Num 0, Num 0))
          = principal_ar binary64 tie_state 1"
    by (simp add: ct)
  then have e: "y_balance (calculateData_ar binary64 tie_state ! 0) = Num 3701"
    and f: "principal_ar binary64 tie_state 1 = Num (8139684580425727 / 2199023255552)"
    unfolding run_months_tie fst_conv snd_conv by (simp_all add: rnd_values)
  from reinvest_policy [OF y, of exact] nt
  have "y_balance (calculateData_ar exact tie_state ! 0)
          = Math_round (jadd (fst (run_months exact tie_state (months_upto 1) (Num 0, Num 0)))
                             (snd (run_months exact tie_state (months_upto 1) (Num 0, Num 0))))
        \<and> fst (run_months exact tie_state (months_upto 1) (Num 0, Num 0))
          = principal_ar exact tie_state 1"
    by (simp add: ct)
  then have g: "y_balance (calculateData_ar exact tie_state ! 0) = Num 3702"
    and h: "principal_ar exact tie_state 1 = Num (7403 / 2)"
    unfolding run_months_tie_exact fst_conv snd_conv by simp_all
  from n a b r d run_months_plain nt e f g h show ?thesis
    by simp
qed



lemma last_calculateData_ar_doubling:
  "y_balance (last (calculateData_ar exact doubling_state)) = Num 10000"
  using calculateData_doubling by (simp add: calculateData_exact last_map exact_result_def)

lemma last_calculateData_ar_calm:
  "y_balance (last (calculateData_ar exact calm_state)) = Num 1000"
  using calculateData_calm by (simp add: calculateData_exact last_map exact_result_def)

lemma toFixed_1318: "toFixed 1 (jmul (jdiv (Num 659) (Num 5000)) (Num 100)) = ''13.2''"
  by (simp add: toFixed_def Let_def string_of_nat.simps digit_char_def)

text \<open>
  The exact arithmetic and \<open>binary64\<close> are accurate. In exact numbers, a capital of 5000
  at 100 % for one year: final balance 10000, gains 5000, tax 659, 9341 after tax,
  effective rate \<^verbatim>\<open>13.2\<close>; a capital of 1000 without any phase: no gains, no tax, effective
  rate \<^verbatim>\<open>0.0\<close>. A capital of 50000 with a withdrawal after the last year, which
  \<^verbatim>\<open>totalInvested\<close> counts and the simulation does not reach: for gains of 5000 the tax is
  659 in \<open>binary64\<close>; for gains of 42000 the tax is 7490 in \<open>binary64\<close> and 7491 in exact
  numbers; for gains of 26000 the tax is 4537 in both and the effective rate is \<^verbatim>\<open>17.4\<close> in
  \<open>binary64\<close> and \<^verbatim>\<open>17.5\<close> in exact numbers.
\<close>

theorem tax_rule_witness:
  "accurate exact \<and> accurate binary64
   \<and> 1 \<le> durationYears doubling_state
   \<and> (\<exists>res. taxInfo_ar exact doubling_state = Inr res \<and> x_gains res = Num 5000
         \<and> x_tax res = Num 659 \<and> x_afterTax res = Num 9341 \<and> x_effectiveRate res = ''13.2'')
   \<and> 1 \<le> durationYears calm_state
   \<and> (\<exists>res. taxInfo_ar exact calm_state = Inr res \<and> x_gains res = Num 0
         \<and> x_tax res = Num 0 \<and> x_afterTax res = Num 1000 \<and> x_effectiveRate res = ''0.0'')
   \<and> (\<exists>res. taxInfo_ar binary64 (withdrawn 5000) = Inr res \<and> x_gains res = Num 5000
         \<and> x_tax res = Num 659)
   \<and> (\<exists>res. taxInfo_ar binary64 (withdrawn 42000) = Inr res \<and> x_gains res = Num 42000
         \<and> x_tax res = Num 7490 \<and> x_afterTax res = Num 42510 \<and> x_effectiveRate res = ''17.8'')
   \<and> (\<exists>res. taxInfo_ar exact (withdrawn 42000) = Inr res \<and> x_gains res = Num 42000
         \<and> x_tax res = Num 7491)
   \<and> (\<exists>res. taxInfo_ar binary64 (withdrawn 26000) = Inr res \<and> x_gains res = Num 26000
         \<and> x_tax res = Num 4537 \<and> x_effectiveRate res = ''17.4'')
   \<and> (\<exists>res. taxInfo_ar exact (withdrawn 26000) = Inr res \<and> x_gains res = Num 26000
         \<and> x_tax res = Num 4537 \<and> x_effectiveRate res = ''17.5'')"
proof -
  have d: "1 \<le> durationYears doubling_state" and d': "1 \<le> durationYears calm_state"
    and dw: "1 \<le> durationYears (withdrawn g)" for g
    by (simp_all add: doubling_state_def calm_state_def withdrawn_def)
  from tax_rule [OF d, of exact] obtain res where
    r: "taxInfo_ar exact doubling_state = Inr res"
      "x_gains res
         = ar_max exact (ar_num exact 0)
             (ar_sub exact (y_balance (last (calculateData_ar exact doubling_state)))
                (totalInvested_ar exact doubling_state))"
      "x_afterTax res
         = ar_sub exact (y_balance (last (calculateData_ar exact doubling_state))) (x_tax res)"
      "x_effectiveRate res
         = (if ar_gt exact (x_gains res) (ar_num exact 0)
            then ar_toFixed exact 1
                   (ar_mul exact (ar_div exact (x_tax res) (x_gains res)) (ar_num exact 100))
            else ''0.0'')"
      "\<forall>ac res'. accurate ac \<and> taxInfo_ar ac doubling_state = Inr res' \<and> x_gains res' = Num 5000
           \<longrightarrow> x_tax res' = Num 659"
    by blast
  have g: "x_gains res = Num 5000"
    unfolding r(2) last_calculateData_ar_doubling totalInvested_exact totalInvested_doubling
    by simp
  with r(1,5) accurate_exact have t: "x_tax res = Num 659"
    by blast
  have af: "x_afterTax res = Num 9341"
    unfolding r(3) last_calculateData_ar_doubling t by simp
  have ef: "x_effectiveRate res = ''13.2''"
    unfolding r(4) g t using toFixed_1318 by simp
  from r(1) g t af ef
  have one: "\<exists>res. taxInfo_ar exact doubling_state = Inr res \<and> x_gains res = Num 5000
         \<and> x_tax res = Num 659 \<and> x_afterTax res = Num 9341 \<and> x_effectiveRate res = ''13.2''"
    by blast
  from tax_rule [OF d', of exact] obtain res' where
    r': "taxInfo_ar exact calm_state = Inr res'"
      "x_gains res'
         = ar_max exact (ar_num exact 0)
             (ar_sub exact (y_balance (last (calculateData_ar exact calm_state)))
                (totalInvested_ar exact calm_state))"
      "x_afterTax res'
         = ar_sub exact (y_balance (last (calculateData_ar exact calm_state))) (x_tax res')"
      "\<forall>ac res. accurate ac \<and> taxInfo_ar ac calm_state = Inr res \<and> x_gains res = Num 0
           \<longrightarrow> x_tax res = Num 0 \<and> x_effectiveRate res = ''0.0''"
    by blast
  have g': "x_gains res' = Num 0"
    unfolding r'(2) last_calculateData_ar_calm totalInvested_exact totalInvested_calm
    by simp
  with r'(1,4) accurate_exact have t': "x_tax res' = Num 0 \<and> x_effectiveRate res' = ''0.0''"
    by blast
  then have af': "x_afterTax res' = Num 1000"
    unfolding r'(3) last_calculateData_ar_calm by simp
  from r'(1) g' t' af'
  have two: "\<exists>res. taxInfo_ar exact calm_state = Inr res \<and> x_gains res = Num 0
         \<and> x_tax res = Num 0 \<and> x_afterTax res = Num 1000 \<and> x_effectiveRate res = ''0.0''"
    by blast
  have w: "\<exists>res. taxInfo_ar ar (withdrawn g) = Inr res
          \<and> x_gains res
              = ar_max ar (ar_num ar 0)
                  (ar_sub ar (Num 50000) (totalInvested_ar ar (withdrawn g)))
          \<and> x_tax res
              = ar_round ar
                  (ar_mul ar
                     (ar_max ar (ar_num ar 0)
                        (ar_sub ar
                           (ar_mul ar (x_gains res) (ar_sub ar (ar_num ar 1) (ar_num ar 0.30)))
                           (ar_num ar 1000)))
                     (ar_num ar 0.26375))
          \<and> x_afterTax res = ar_sub ar (Num 50000) (x_tax res)
          \<and> x_effectiveRate res
              = (if ar_gt ar (x_gains res) (ar_num ar 0)
                 then ar_toFixed ar 1
                        (ar_mul ar (ar_div ar (x_tax res) (x_gains res)) (ar_num ar 100))
                 else ''0.0'')
          \<and> (\<forall>ac res'. accurate ac \<and> taxInfo_ar ac (withdrawn g) = Inr res'
                  \<and> x_gains res' = Num 5000 \<longrightarrow> x_tax res' = Num 659)"
    if "ar = binary64 \<or> ar = exact" for ar g
    using tax_rule [OF dw, of ar g] unfolding balance_withdrawn [OF that] by blast
  from w [of binary64 5000] obtain r3 where
    r3: "taxInfo_ar binary64 (withdrawn 5000) = Inr r3"
      "x_gains r3
         = ar_max binary64 (ar_num binary64 0)
             (ar_sub binary64 (Num 50000) (totalInvested_ar binary64 (withdrawn 5000)))"
      "\<forall>ac res'. accurate ac \<and> taxInfo_ar ac (withdrawn 5000) = Inr res'
                  \<and> x_gains res' = Num 5000 \<longrightarrow> x_tax res' = Num 659"
    by blast
  have g3: "x_gains r3 = Num 5000"
    unfolding r3(2) totalInvested_withdrawn by simp
  with r3(1,3) accurate_binary64 have "x_tax r3 = Num 659"
    by blast
  with r3(1) g3
  have three: "\<exists>res. taxInfo_ar binary64 (withdrawn 5000) = Inr res \<and> x_gains res = Num 5000
         \<and> x_tax res = Num 659"
    by blast
  from w [of binary64 42000] obtain r4 where
    r4: "taxInfo_ar binary64 (withdrawn 42000) = Inr r4"
      "x_gains r4
         = ar_max binary64 (ar_num binary64 0)
             (ar_sub binary64 (Num 50000) (totalInvested_ar binary64 (withdrawn 42000)))"
      "x_tax r4
         = ar_round binary64
             (ar_mul binary64
                (ar_max binary64 (ar_num binary64 0)
                   (ar_sub binary64
                      (ar_mul binary64 (x_gains r4)
                         (ar_sub binary64 (ar_num binary64 1) (ar_num binary64 0.30)))
                      (ar_num binary64 1000)))
                (ar_num binary64 0.26375))"
      "x_afterTax r4 = ar_sub binary64 (Num 50000) (x_tax r4)"
      "x_effectiveRate r4
         = (if ar_gt binary64 (x_gains r4) (ar_num binary64 0)
            then ar_toFixed binary64 1
                   (ar_mul binary64 (ar_div binary64 (x_tax r4) (x_gains r4)) (ar_num binary64 100))
            else ''0.0'')"
    by blast
  have g4: "x_gains r4 = Num 42000"
    unfolding r4(2) totalInvested_withdrawn by simp
  have t4: "x_tax r4 = Num 7490"
    unfolding r4(3) g4 by (simp add: rnd_values)
  have a4: "x_afterTax r4 = Num 42510"
    unfolding r4(4) t4 by simp
  have e4: "x_effectiveRate r4 = ''17.8''"
    unfolding r4(5) g4 t4 using toFixed_tie by (simp add: rnd_values)
  from r4(1) g4 t4 a4 e4
  have four: "\<exists>res. taxInfo_ar binary64 (withdrawn 42000) = Inr res \<and> x_gains res = Num 42000
         \<and> x_tax res = Num 7490 \<and> x_afterTax res = Num 42510 \<and> x_effectiveRate res = ''17.8''"
    by blast
  from w [of exact 42000] obtain r5 where
    r5: "taxInfo_ar exact (withdrawn 42000) = Inr r5"
      "x_gains r5
         = ar_max exact (ar_num exact 0)
             (ar_sub exact (Num 50000) (totalInvested_ar exact (withdrawn 42000)))"
      "x_tax r5
         = ar_round exact
             (ar_mul exact
                (ar_max exact (ar_num exact 0)
                   (ar_sub exact
                      (ar_mul exact (x_gains r5)
                         (ar_sub exact (ar_num exact 1) (ar_num exact 0.30)))
                      (ar_num exact 1000)))
                (ar_num exact 0.26375))"
    by blast
  have g5: "x_gains r5 = Num 42000"
    unfolding r5(2) totalInvested_withdrawn by simp
  have t5: "x_tax r5 = Num 7491"
    unfolding r5(3) g5 by simp
  from r5(1) g5 t5
  have five: "\<exists>res. taxInfo_ar exact (withdrawn 42000) = Inr res \<and> x_gains res = Num 42000
         \<and> x_tax res = Num 7491"
    by blast
  from w [of binary64 26000] obtain r6 where
    r6: "taxInfo_ar binary64 (withdrawn 26000) = Inr r6"
      "x_gains r6
         = ar_max binary64 (ar_num binary64 0)
             (ar_sub binary64 (Num 50000) (totalInvested_ar binary64 (withdrawn 26000)))"
      "x_tax r6
         = ar_round binary64
             (ar_mul binary64
                (ar_max binary64 (ar_num binary64 0)
                   (ar_sub binary64
                      (ar_mul binary64 (x_gains r6)
                         (ar_sub binary64 (ar_num binary64 1) (ar_num binary64 0.30)))
                      (ar_num binary64 1000)))
                (ar_num binary64 0.26375))"
      "x_effectiveRate r6
         = (if ar_gt binary64 (x_gains r6) (ar_num binary64 0)
            then ar_toFixed binary64 1
                   (ar_mul binary64 (ar_div binary64 (x_tax r6) (x_gains r6)) (ar_num binary64 100))
            else ''0.0'')"
    by blast
  have g6: "x_gains r6 = Num 26000"
    unfolding r6(2) totalInvested_withdrawn by simp
  have t6: "x_tax r6 = Num 4537"
    unfolding r6(3) g6 by (simp add: rnd_values)
  have e6: "x_effectiveRate r6 = ''17.4''"
    unfolding r6(4) g6 t6 using toFixed_tie by (simp add: rnd_values)
  from r6(1) g6 t6 e6
  have six: "\<exists>res. taxInfo_ar binary64 (withdrawn 26000) = Inr res \<and> x_gains res = Num 26000
         \<and> x_tax res = Num 4537 \<and> x_effectiveRate res = ''17.4''"
    by blast
  from w [of exact 26000] obtain r7 where
    r7: "taxInfo_ar exact (withdrawn 26000) = Inr r7"
      "x_gains r7
         = ar_max exact (ar_num exact 0)
             (ar_sub exact (Num 50000) (totalInvested_ar exact (withdrawn 26000)))"
      "x_tax r7
         = ar_round exact
             (ar_mul exact
                (ar_max exact (ar_num exact 0)
                   (ar_sub exact
                      (ar_mul exact (x_gains r7)
                         (ar_sub exact (ar_num exact 1) (ar_num exact 0.30)))
                      (ar_num exact 1000)))
                (ar_num exact 0.26375))"
      "x_effectiveRate r7
         = (if ar_gt exact (x_gains r7) (ar_num exact 0)
            then ar_toFixed exact 1
                   (ar_mul exact (ar_div exact (x_tax r7) (x_gains r7)) (ar_num exact 100))
            else ''0.0'')"
    by blast
  have g7: "x_gains r7 = Num 26000"
    unfolding r7(2) totalInvested_withdrawn by simp
  have t7: "x_tax r7 = Num 4537"
    unfolding r7(3) g7 by simp
  have e7: "x_effectiveRate r7 = ''17.5''"
    unfolding r7(4) g7 t7 using toFixed_tie by simp
  from r7(1) g7 t7 e7
  have seven: "\<exists>res. taxInfo_ar exact (withdrawn 26000) = Inr res \<and> x_gains res = Num 26000
         \<and> x_tax res = Num 4537 \<and> x_effectiveRate res = ''17.5''"
    by blast
  from accurate_exact accurate_binary64 d one d' two three four five six seven show ?thesis
    by blast
qed

section \<open>Benchmarks\<close>

lemma fold_benchmark_step:
  "fold (benchmark_step etf) ys (c, yrs)
   = (c * prod_list (map (\<lambda>y. 1 + the (e_returns etf y) / 100)
                        (filter (\<lambda>y. e_returns etf y \<noteq> None) ys)),
      yrs @ filter (\<lambda>y. e_returns etf y \<noteq> None) ys)"
proof (induction ys arbitrary: c yrs)
  case Nil
  show ?case by simp
next
  case (Cons y ys)
  show ?case
  proof (cases "e_returns etf y")
    case None
    then have "benchmark_step etf y (c, yrs) = (c, yrs)"
      by (simp add: benchmark_step_def)
    with None show ?thesis
      by (simp add: Cons.IH del: not_None_eq)
  next
    case (Some r)
    then have "benchmark_step etf y (c, yrs) = (c * (1 + r / 100), yrs @ [y])"
      by (simp add: benchmark_step_def)
    with Some show ?thesis
      by (simp add: Cons.IH mult.assoc del: not_None_eq)
  qed
qed

lemma benchmark_loop_eq:
  "benchmark_loop st etf
   = (prod_list (map (\<lambda>y. 1 + the (e_returns etf y) / 100)
                     (filter (\<lambda>y. e_returns etf y \<noteq> None) [2025 - durationYears st + 1..2025])),
      filter (\<lambda>y. e_returns etf y \<noteq> None) [2025 - durationYears st + 1..2025])"
  by (simp add: benchmark_loop_def fold_benchmark_step Let_def)

lemma window_three: "[2025 - durationYears three_year_state + 1..2025] = [2023, 2024, 2025]"
  by (simp add: three_year_state_def upto_rec1)

lemma gap_years:
  "filter (\<lambda>y. e_returns gap_etf y \<noteq> None) [2023, 2024, 2025] = [2023, 2025]"
  by (simp add: gap_etf_def del: not_None_eq)

lemma b_cagr_eq:
  "b_cagr (benchmark st etf)
   = (if length (snd (benchmark_loop st etf)) > 0
      then Some (toFixed 1
             (jmul (jsub (Math_pow (Num (fst (benchmark_loop st etf)))
                                   (1 / real (length (snd (benchmark_loop st etf)))))
                         (Num 1))
                   (Num 100)))
      else None)"
  by (simp add: benchmark_def Let_def)

text \<open>
  C6, amended. For every index and every duration the loop of the benchmark walks the
  years from \<open>2025 - durationYears + 1\<close> to 2025 upwards, keeps exactly the years that the
  return table of the index has, and multiplies \<open>cumulative\<close> by \<open>1 + return / 100\<close> for these
  years only; \<open>yearsAvailable\<close> is the number of years kept. The \<open>cagr\<close> reported is null when
  no year is kept, and otherwise the text of \<open>(cumulative\<^bsup>1/n\<^esup> - 1) \<sqdot> 100\<close> with one decimal
  (\<^verbatim>\<open>toFixed(1)\<close>). For a table with the years 2023 and 2025 and a window of three years, two
  years are available of three requested.
\<close>

theorem benchmark_cagr:
  "benchmark_loop st etf
     = (prod_list (map (\<lambda>y. 1 + the (e_returns etf y) / 100)
                       (filter (\<lambda>y. e_returns etf y \<noteq> None) [2025 - durationYears st + 1..2025])),
        filter (\<lambda>y. e_returns etf y \<noteq> None) [2025 - durationYears st + 1..2025])
   \<and> b_yearsAvailable (benchmark st etf) = length (snd (benchmark_loop st etf))
   \<and> b_yearsRequested (benchmark st etf) = durationYears st
   \<and> b_cagr (benchmark st etf)
       = (if length (snd (benchmark_loop st etf)) > 0
          then Some (toFixed 1
                 (jmul (jsub (Math_pow (Num (fst (benchmark_loop st etf)))
                                       (1 / real (length (snd (benchmark_loop st etf)))))
                             (Num 1))
                       (Num 100)))
          else None)
   \<and> b_yearsAvailable (benchmark three_year_state gap_etf) = 2
   \<and> b_yearsRequested (benchmark three_year_state gap_etf) = 3"
proof (intro conjI)
  show "benchmark_loop st etf
     = (prod_list (map (\<lambda>y. 1 + the (e_returns etf y) / 100)
                       (filter (\<lambda>y. e_returns etf y \<noteq> None) [2025 - durationYears st + 1..2025])),
        filter (\<lambda>y. e_returns etf y \<noteq> None) [2025 - durationYears st + 1..2025])"
    by (rule benchmark_loop_eq)
  show "b_yearsAvailable (benchmark st etf) = length (snd (benchmark_loop st etf))"
    by (simp add: benchmark_def Let_def)
  show "b_yearsRequested (benchmark st etf) = durationYears st"
    by (simp add: benchmark_def Let_def)
  show "b_cagr (benchmark st etf)
       = (if length (snd (benchmark_loop st etf)) > 0
          then Some (toFixed 1
                 (jmul (jsub (Math_pow (Num (fst (benchmark_loop st etf)))
                                       (1 / real (length (snd (benchmark_loop st etf)))))
                             (Num 1))
                       (Num 100)))
          else None)"
    by (rule b_cagr_eq)
  have "snd (benchmark_loop three_year_state gap_etf) = [2023, 2025]"
    unfolding benchmark_loop_eq window_three gap_years by simp
  then show "b_yearsAvailable (benchmark three_year_state gap_etf) = 2"
    by (simp add: benchmark_def Let_def)
  show "b_yearsRequested (benchmark three_year_state gap_etf) = 3"
    by (simp add: benchmark_def Let_def three_year_state_def)
qed

subsection \<open>The first index over two years\<close>

lemma window_two: "[2025 - durationYears two_year_state + 1..2025] = [2024, 2025]"
  by (simp add: two_year_state_def upto_rec1)

lemma sp500_two_years:
  "benchmark_loop two_year_state (etfData ! 0) = (137904 / 100000, [2024, 2025])"
  unfolding benchmark_loop_eq window_two by (simp add: etfData_def del: not_None_eq)

lemma root_bounds:
  "(1.1735::real) \<le> (137904 / 100000) powr (1 / 2)
   \<and> (137904 / 100000) powr (1 / 2) < (1.1745::real)"
proof -
  let ?q = "(137904 / 100000) powr (1 / 2) :: real"
  have sq: "?q\<^sup>2 = 137904 / 100000"
    by (simp add: powr_power)
  have "(1.1735::real)\<^sup>2 \<le> ?q\<^sup>2"
    unfolding sq by (simp add: power2_eq_square)
  then have lo: "(1.1735::real) \<le> ?q"
    by (rule power2_le_imp_le) simp
  have "?q\<^sup>2 < (1.1745::real)\<^sup>2"
    unfolding sq by (simp add: power2_eq_square)
  then have hi: "?q < (1.1745::real)"
    by (rule power2_less_imp_less) simp
  from lo hi show ?thesis ..
qed

lemma toFixed1_174:
  assumes "17.35 \<le> x" "x < 17.45"
  shows "toFixed 1 (Num x) = ''17.4''"
proof -
  have "\<lfloor>x * 10 + 1 / 2\<rfloor> = 174"
    using assms by (simp add: floor_eq_iff)
  moreover have "\<bar>x\<bar> = x" "\<not> x < 0"
    using assms by simp_all
  ultimately show ?thesis
    by (simp add: toFixed_def Let_def string_of_nat.simps digit_char_def)
qed

text \<open>
  C6, as stated, fails in the value reported. For the first index over two years,
  \<open>cumulative\<close> is 1.37904 and \<open>(cumulative\<^bsup>1/2\<^esup> - 1) \<sqdot> 100\<close> is not 17.4, yet the \<open>cagr\<close> reported is
  the text \<^verbatim>\<open>17.4\<close>.
\<close>

theorem cagr_is_rounded_text:
  "b_cagr (benchmark two_year_state (etfData ! 0)) = Some ''17.4''
   \<and> jmul (jsub (Math_pow (Num (fst (benchmark_loop two_year_state (etfData ! 0))))
                          (1 / real (length (snd (benchmark_loop two_year_state (etfData ! 0))))))
                (Num 1))
          (Num 100) \<noteq> Num 17.4"
proof -
  let ?q = "(137904 / 100000) powr (1 / 2) :: real"
  have b: "17.35 \<le> (?q - 1) * 100" "(?q - 1) * 100 < 17.45"
    using root_bounds by (simp_all add: algebra_simps)
  have sq: "?q\<^sup>2 = 137904 / 100000"
    by (simp add: powr_power)
  have ne: "(?q - 1) * 100 \<noteq> 17.4"
  proof
    assume "(?q - 1) * 100 = 17.4"
    then have "?q = 1.174" by simp
    then have "?q\<^sup>2 = (1.174::real)\<^sup>2" by (rule arg_cong)
    then have "(137904 / 100000 :: real) = 1.174\<^sup>2" unfolding sq .
    then show False by (simp add: power2_eq_square)
  qed
  have n: "length (snd (benchmark_loop two_year_state (etfData ! 0))) = 2"
    and c: "fst (benchmark_loop two_year_state (etfData ! 0)) = 137904 / 100000"
    by (simp_all add: sp500_two_years)
  have "Math_pow (Num (137904 / 100000)) (1 / real 2) = Num ?q"
    by (simp add: Math_pow_def)
  then have x: "jmul (jsub (Math_pow (Num (fst (benchmark_loop two_year_state (etfData ! 0))))
                          (1 / real (length (snd (benchmark_loop two_year_state (etfData ! 0))))))
                (Num 1))
          (Num 100) = Num ((?q - 1) * 100)"
    unfolding n c by simp
  have "b_cagr (benchmark two_year_state (etfData ! 0)) = Some (toFixed 1 (Num ((?q - 1) * 100)))"
    unfolding b_cagr_eq x by (simp add: n)
  then have "b_cagr (benchmark two_year_state (etfData ! 0)) = Some ''17.4''"
    unfolding toFixed1_174 [OF b] .
  moreover have "Num ((?q - 1) * 100) \<noteq> Num 17.4"
    using ne by simp
  ultimately show ?thesis
    unfolding x by (rule conjI)
qed

end
